theory Spec2Isabelle
  imports Main
begin

section \<open>The CSV normalizer \<^verbatim>\<open>normalize.py\<close>\<close>

text \<open>
  A shallow embedding of \<^verbatim>\<open>src/normalize.py\<close>. A Python \<^verbatim>\<open>str\<close> is a
  \<^typ>\<open>string\<close> whose characters stand for the code points below 256, one character per
  code point, so that \<^const>\<open>length\<close> is Python's \<^verbatim>\<open>len\<close>. A row, as the
  \<^verbatim>\<open>csv.reader\<close> hands it over, is a list of such fields. An exception is a value
  of \<open>exn\<close> carrying the text \<^verbatim>\<open>str(error)\<close> gives, and a call that may raise
  returns \<open>exn + 'a\<close>, with \<open>Inl\<close> for the raise. The upper-case mapping of the
  runtime, \<^verbatim>\<open>str.upper\<close>, follows the Unicode table of the interpreter, which is no
  part of the repository: every function that reaches it takes it as the parameter
  \<open>upper\<close>, and every statement below holds for every such mapping.
\<close>

subsection \<open>Exceptions\<close>

datatype exn =
    ValueError string
  | IndexError string
  | OverflowError string
  | StopIteration

type_synonym 'a result = "exn + 'a"

fun bind_r :: "'a result \<Rightarrow> ('a \<Rightarrow> 'b result) \<Rightarrow> 'b result" where
  "bind_r (Inl e) f = Inl e"
| "bind_r (Inr x) f = f x"

fun returns :: "'a result \<Rightarrow> bool" where
  "returns (Inr x) = True"
| "returns (Inl e) = False"

fun raises_ValueError :: "'a result \<Rightarrow> bool" where
  "raises_ValueError (Inl (ValueError msg)) = True"
| "raises_ValueError m = False"

subsection \<open>Strings and the built-in \<^verbatim>\<open>int\<close>\<close>

definition code :: "char \<Rightarrow> nat" where
  "code c = of_char c"

definition is_digit :: "char \<Rightarrow> bool" where
  \<comment> \<open>a decimal digit; below code point 256 these are the ASCII digits only\<close>
  "is_digit c = (48 \<le> code c \<and> code c \<le> 57)"

definition digit_val :: "char \<Rightarrow> nat" where
  "digit_val c = code c - 48"

definition dec_value :: "string \<Rightarrow> nat" where
  \<comment> \<open>the number a run of decimal digits writes\<close>
  "dec_value ds = foldl (\<lambda>acc c. acc * 10 + digit_val c) 0 ds"

definition is_ascii_space :: "char \<Rightarrow> bool" where
  \<comment> \<open>\<^verbatim>\<open>Py_ISSPACE\<close>: tab, line feed, vertical tab, form feed, carriage return, space\<close>
  "is_ascii_space c = ((9 \<le> code c \<and> code c \<le> 13) \<or> code c = 32)"

definition is_unicode_space :: "char \<Rightarrow> bool" where
  \<comment> \<open>\<^verbatim>\<open>Py_UNICODE_ISSPACE\<close> below code point 256: also the separators 0x1C..0x1F,
      NEL (0x85) and the no-break space (0xA0)\<close>
  "is_unicode_space c =
     ((9 \<le> code c \<and> code c \<le> 13) \<or> (28 \<le> code c \<and> code c \<le> 32)
      \<or> code c = 0x85 \<or> code c = 0xA0)"

definition digit_char :: "nat \<Rightarrow> char" where
  "digit_char n = ''0123456789'' ! (n mod 10)"

fun digits_of :: "nat \<Rightarrow> string" where
  \<comment> \<open>the decimal digits of a number\<close>
  "digits_of n = (if n < 10 then [digit_char n] else digits_of (n div 10) @ [digit_char n])"

declare digits_of.simps [simp del]

definition lower_ascii :: "char \<Rightarrow> char" where
  "lower_ascii c =
     (if 65 \<le> code c \<and> code c \<le> 90 then ''abcdefghijklmnopqrstuvwxyz'' ! (code c - 65) else c)"

definition to_ascii :: "string \<Rightarrow> string" where
  \<comment> \<open>what \<^verbatim>\<open>int\<close> and \<^verbatim>\<open>float\<close> do to their argument first: code points
      below 127 stay, a wider space becomes a blank, a wider decimal digit its ASCII digit (there
      is none below 256), and anything else becomes a question mark, which no number holds\<close>
  "to_ascii s =
     map (\<lambda>c. if code c < 127 then c else if is_unicode_space c then CHR '' '' else CHR ''?'') s"

definition hex_digit :: "nat \<Rightarrow> char" where
  "hex_digit n = ''0123456789abcdef'' ! (n mod 16)"

definition is_printable :: "char \<Rightarrow> bool" where
  \<comment> \<open>\<^verbatim>\<open>str.isprintable\<close> below code point 256\<close>
  "is_printable c = ((32 \<le> code c \<and> code c < 127) \<or> (161 \<le> code c \<and> code c \<noteq> 173))"

definition repr_char :: "char \<Rightarrow> char \<Rightarrow> string" where
  "repr_char quote c =
     (if c = quote \<or> c = CHR 0x5C then [CHR 0x5C, c]
      else if c = CHR 0x09 then [CHR 0x5C, CHR ''t'']
      else if c = CHR 0x0A then [CHR 0x5C, CHR ''n'']
      else if c = CHR 0x0D then [CHR 0x5C, CHR ''r'']
      else if is_printable c then [c]
      else [CHR 0x5C, CHR ''x'', hex_digit (code c div 16), hex_digit (code c)])"

definition quote_for :: "string \<Rightarrow> char" where
  \<comment> \<open>single quotes, unless the text holds a single quote and no double quote\<close>
  "quote_for s = (if CHR 0x27 \<in> set s \<and> CHR 0x22 \<notin> set s then CHR 0x22 else CHR 0x27)"

definition quoted :: "char \<Rightarrow> string \<Rightarrow> string" where
  "quoted quote s = [quote] @ concat (map (repr_char quote) s) @ [quote]"

definition py_repr :: "string \<Rightarrow> string" where
  \<comment> \<open>\<^verbatim>\<open>repr\<close> of a \<^verbatim>\<open>str\<close>\<close>
  "py_repr s = quoted (quote_for s) s"

fun no_double_underscore :: "string \<Rightarrow> bool" where
  "no_double_underscore (a # b # s) =
     (\<not> (a = CHR ''_'' \<and> b = CHR ''_'') \<and> no_double_underscore (b # s))"
| "no_double_underscore s = True"

definition int_digits :: "bool \<Rightarrow> string \<Rightarrow> string \<Rightarrow> int option" where
  \<comment> \<open>\<open>body\<close> is the run of digits and underscores, \<open>rest\<close> what follows the blanks
      behind it\<close>
  "int_digits neg body rest =
     (if body = [] \<or> hd body = CHR ''_'' \<or> last body = CHR ''_''
         \<or> \<not> no_double_underscore body \<or> rest \<noteq> []
      then None
      else Some (if neg then - int (dec_value (filter is_digit body))
                 else int (dec_value (filter is_digit body))))"

definition int_body :: "bool \<Rightarrow> string \<Rightarrow> int option" where
  "int_body neg u =
     int_digits neg (takeWhile (\<lambda>c. is_digit c \<or> c = CHR ''_'') u)
       (dropWhile is_ascii_space (dropWhile (\<lambda>c. is_digit c \<or> c = CHR ''_'') u))"

definition int_signed :: "string \<Rightarrow> int option" where
  "int_signed t =
     (if t \<noteq> [] \<and> hd t = CHR ''-'' then int_body True (tl t)
      else if t \<noteq> [] \<and> hd t = CHR ''+'' then int_body False (tl t)
      else int_body False t)"

definition parse_int :: "string \<Rightarrow> int option" where
  \<comment> \<open>the grammar of \<^verbatim>\<open>int(s)\<close> in base 10: blanks, an optional sign, decimal digits
      with single underscores between them, blanks\<close>
  "parse_int s = int_signed (dropWhile is_ascii_space (to_ascii s))"

fun int_result :: "string \<Rightarrow> int option \<Rightarrow> int result" where
  "int_result s None =
     Inl (ValueError (''invalid literal for int() with base 10: '' @ take 200 (py_repr s)))"
| "int_result s (Some n) = Inr n"

definition py_int :: "string \<Rightarrow> int result" where
  "py_int s = int_result s (parse_int s)"

definition str_repeat :: "string \<Rightarrow> int \<Rightarrow> string" where
  \<comment> \<open>\<^verbatim>\<open>s * n\<close>: the empty string when \<open>n\<close> is zero or negative\<close>
  "str_repeat s n = concat (replicate (nat n) s)"

definition upper_ascii :: "string \<Rightarrow> string" where
  \<comment> \<open>what \<^verbatim>\<open>str.upper\<close> returns for a text of ASCII characters: the letters a to z
      become A to Z. The examples, whose names are ASCII, are run with it.\<close>
  "upper_ascii s =
     map (\<lambda>c. if 97 \<le> code c \<and> code c \<le> 122 then ''ABCDEFGHIJKLMNOPQRSTUVWXYZ'' ! (code c - 97)
              else c) s"

subsection \<open>\<^verbatim>\<open>clean_address\<close>\<close>

text \<open>
  \<^verbatim>\<open>
  def clean_address(address):
      if ',' in address:
          address = '"{address}"'.format(address=address)
      return address
  \<close>
\<close>

definition clean_address :: "string \<Rightarrow> string" where
  "clean_address address =
     (if CHR '','' \<in> set address then [CHR 0x22] @ address @ [CHR 0x22] else address)"

subsection \<open>\<^verbatim>\<open>print_error\<close>\<close>

text \<open>
  \<^verbatim>\<open>
  def print_error(error):
      print('WARN: row will be omitted due to invalid input format: {e}'.format(e=error),
            file=sys.stderr)
  \<close>
  The two output channels are lists of the strings printed to them, in order.
\<close>

record channels =
  stdout :: "string list"
  stderr :: "string list"

fun str_of_exn :: "exn \<Rightarrow> string" where
  "str_of_exn (ValueError m) = m"
| "str_of_exn (IndexError m) = m"
| "str_of_exn (OverflowError m) = m"
| "str_of_exn StopIteration = []"

definition print_error :: "exn \<Rightarrow> channels \<Rightarrow> channels" where
  "print_error error io =
     io\<lparr>stderr := stderr io
          @ [''WARN: row will be omitted due to invalid input format: '' @ str_of_exn error]\<rparr>"

subsection \<open>Dates and times\<close>

text \<open>
  \<^verbatim>\<open>
  pacific_offset = datetime.timedelta(hours=-8)
  eastern_offset = datetime.timedelta(hours=-5)
  pacific_tz = datetime.timezone(pacific_offset, 'Pacific Time')
  eastern_tz = datetime.timezone(eastern_offset, 'Eastern Time')
  \<close>
  A \<^verbatim>\<open>timedelta\<close> is its number of seconds. A \<^verbatim>\<open>datetime\<close> is its six
  calendar fields (the microsecond is always zero here) and its \<^verbatim>\<open>tzinfo\<close>.
\<close>

type_synonym timedelta = int

definition timedelta_hours :: "int \<Rightarrow> timedelta" where
  "timedelta_hours h = h * 3600"

record timezone =
  utcoffset :: timedelta
  tzname :: string

definition pacific_offset :: timedelta where
  "pacific_offset = timedelta_hours (- 8)"

definition eastern_offset :: timedelta where
  "eastern_offset = timedelta_hours (- 5)"

definition pacific_tz :: timezone where
  "pacific_tz = \<lparr>utcoffset = pacific_offset, tzname = ''Pacific Time''\<rparr>"

definition eastern_tz :: timezone where
  "eastern_tz = \<lparr>utcoffset = eastern_offset, tzname = ''Eastern Time''\<rparr>"

record datetime =
  year :: nat
  month :: nat
  day :: nat
  hour :: nat
  minute :: nat
  second :: nat
  tzinfo :: "timezone option"

definition is_leap :: "nat \<Rightarrow> bool" where
  "is_leap y = (y mod 4 = 0 \<and> (y mod 100 \<noteq> 0 \<or> y mod 400 = 0))"

definition days_in_month :: "nat \<Rightarrow> nat \<Rightarrow> nat" where
  "days_in_month y m =
     (if m = 2 then (if is_leap y then 29 else 28)
      else if m = 4 \<or> m = 6 \<or> m = 9 \<or> m = 11 then 30 else 31)"

definition next_day :: "datetime \<Rightarrow> datetime" where
  "next_day dt =
     (if day dt < days_in_month (year dt) (month dt) then dt\<lparr>day := day dt + 1\<rparr>
      else if month dt < 12 then dt\<lparr>month := month dt + 1, day := 1\<rparr>
      else dt\<lparr>year := year dt + 1, month := 1, day := 1\<rparr>)"

definition prev_day :: "datetime \<Rightarrow> datetime" where
  "prev_day dt =
     (if 1 < day dt then dt\<lparr>day := day dt - 1\<rparr>
      else if 1 < month dt
        then dt\<lparr>month := month dt - 1, day := days_in_month (year dt) (month dt - 1)\<rparr>
      else dt\<lparr>year := year dt - 1, month := 12, day := 31\<rparr>)"

definition shift_days :: "int \<Rightarrow> datetime \<Rightarrow> datetime" where
  "shift_days n dt = (if 0 \<le> n then (next_day ^^ nat n) dt else (prev_day ^^ nat (- n)) dt)"

definition set_time :: "datetime \<Rightarrow> nat \<Rightarrow> datetime" where
  \<comment> \<open>the time of day from its number of seconds\<close>
  "set_time dt secs =
     dt\<lparr>hour := secs div 3600, minute := secs mod 3600 div 60, second := secs mod 60\<rparr>"

definition carry_days :: "datetime \<Rightarrow> int \<Rightarrow> datetime" where
  \<comment> \<open>whole days carried out of the seconds with floor division\<close>
  "carry_days dt secs = shift_days (secs div 86400) (set_time dt (nat (secs mod 86400)))"

definition add_timedelta :: "datetime \<Rightarrow> timedelta \<Rightarrow> datetime" where
  \<comment> \<open>\<^verbatim>\<open>dt + delta\<close>\<close>
  "add_timedelta dt delta =
     carry_days dt (int (hour dt) * 3600 + int (minute dt) * 60 + int (second dt) + delta)"

definition replace_tzinfo :: "datetime \<Rightarrow> timezone \<Rightarrow> datetime" where
  "replace_tzinfo dt tz = dt\<lparr>tzinfo := Some tz\<rparr>"

fun astimezone_from :: "timezone option \<Rightarrow> datetime \<Rightarrow> timezone \<Rightarrow> datetime" where
  "astimezone_from None dt tz = dt"
| "astimezone_from (Some mytz) dt tz =
     add_timedelta (replace_tzinfo (add_timedelta dt (- utcoffset mytz)) tz) (utcoffset tz)"

definition astimezone :: "datetime \<Rightarrow> timezone \<Rightarrow> datetime" where
  \<comment> \<open>for a datetime with a \<^verbatim>\<open>tzinfo\<close>: back to UTC by its own offset, then forward by
      the offset of \<open>tz\<close>. (Without one, Python would ask the operating system for the local
      zone; \<^verbatim>\<open>format_timestamp\<close> always sets one first.)\<close>
  "astimezone dt tz = astimezone_from (tzinfo dt) dt tz"

definition zero_pad :: "nat \<Rightarrow> nat \<Rightarrow> string" where
  \<comment> \<open>\<^verbatim>\<open>'%0wd' % n\<close>\<close>
  "zero_pad w n = replicate (w - length (digits_of n)) CHR ''0'' @ digits_of n"

definition format_offset :: "timedelta \<Rightarrow> string" where
  "format_offset off =
     (if off < 0 then ''-'' else ''+'')
     @ zero_pad 2 (nat \<bar>off\<bar> div 3600) @ '':'' @ zero_pad 2 (nat \<bar>off\<bar> mod 3600 div 60)
     @ (if nat \<bar>off\<bar> mod 60 \<noteq> 0 then '':'' @ zero_pad 2 (nat \<bar>off\<bar> mod 60) else [])"

fun offset_text :: "timezone option \<Rightarrow> string" where
  "offset_text None = []"
| "offset_text (Some tz) = format_offset (utcoffset tz)"

definition isoformat :: "datetime \<Rightarrow> string" where
  "isoformat dt =
     zero_pad 4 (year dt) @ ''-'' @ zero_pad 2 (month dt) @ ''-'' @ zero_pad 2 (day dt)
     @ ''T'' @ zero_pad 2 (hour dt) @ '':'' @ zero_pad 2 (minute dt) @ '':'' @ zero_pad 2 (second dt)
     @ offset_text (tzinfo dt)"

subsection \<open>\<^verbatim>\<open>datetime.strptime\<close> with the format \<^verbatim>\<open>%m/%d/%y %I:%M:%S %p\<close>\<close>

text \<open>
  \<^verbatim>\<open>strptime\<close> turns the format into the regular expression
  \<^verbatim>\<open>(?P<m>1[0-2]|0[1-9]|[1-9])/(?P<d>3[0-1]|[1-2]\d|0[1-9]|[1-9]| [1-9])/(?P<y>\d\d)\s+\<close>
  \<^verbatim>\<open>(?P<I>1[0-2]|0[1-9]|[1-9]):(?P<M>[0-5]\d|\d):(?P<S>6[0-1]|[0-5]\d|\d)\s+(?P<p>am|pm)\<close>,
  compiled to ignore case, and matches it at the start of the text. A regular expression is
  modelled by the list of all the ways it matches a prefix, each with the text matched and
  the text left, in the order the backtracking matcher tries them; the match found is the
  first of the list.
\<close>

type_synonym matcher = "string \<Rightarrow> (string \<times> string) list"

definition re_range :: "char \<Rightarrow> char \<Rightarrow> matcher" where
  "re_range lo hi s =
     (case s of [] \<Rightarrow> [] | c # r \<Rightarrow> if code lo \<le> code c \<and> code c \<le> code hi then [([c], r)] else [])"

definition re_chr :: "char \<Rightarrow> matcher" where
  "re_chr a s = (case s of [] \<Rightarrow> [] | c # r \<Rightarrow> if c = a then [([c], r)] else [])"

definition re_letter :: "char \<Rightarrow> matcher" where
  \<comment> \<open>a lower-case letter of the pattern, matched ignoring case\<close>
  "re_letter a s = (case s of [] \<Rightarrow> [] | c # r \<Rightarrow> if lower_ascii c = a then [([c], r)] else [])"

definition re_d :: matcher where
  \<comment> \<open>\<^verbatim>\<open>\d\<close>\<close>
  "re_d s = (case s of [] \<Rightarrow> [] | c # r \<Rightarrow> if is_digit c then [([c], r)] else [])"

definition re_then :: "matcher \<Rightarrow> matcher \<Rightarrow> matcher" where
  "re_then p q s = concat (map (\<lambda>(a, r). map (\<lambda>(b, r'). (a @ b, r')) (q r)) (p s))"

definition re_or :: "matcher \<Rightarrow> matcher \<Rightarrow> matcher" where
  "re_or p q s = p s @ q s"

definition re_spaces :: matcher where
  \<comment> \<open>\<^verbatim>\<open>\s+\<close>: greedy, the longest run first, then each shorter one\<close>
  "re_spaces s =
     (let n = length (takeWhile is_unicode_space s)
      in map (\<lambda>k. (take k s, drop k s)) (rev [1 ..< Suc n]))"

definition re_month :: matcher where
  "re_month = re_or (re_then (re_chr CHR ''1'') (re_range CHR ''0'' CHR ''2''))
             (re_or (re_then (re_chr CHR ''0'') (re_range CHR ''1'' CHR ''9''))
                    (re_range CHR ''1'' CHR ''9''))"

definition re_day :: matcher where
  "re_day = re_or (re_then (re_chr CHR ''3'') (re_range CHR ''0'' CHR ''1''))
           (re_or (re_then (re_range CHR ''1'' CHR ''2'') re_d)
           (re_or (re_then (re_chr CHR ''0'') (re_range CHR ''1'' CHR ''9''))
           (re_or (re_range CHR ''1'' CHR ''9'')
                  (re_then (re_chr CHR '' '') (re_range CHR ''1'' CHR ''9'')))))"

definition re_year :: matcher where
  "re_year = re_then re_d re_d"

definition re_hour :: matcher where
  "re_hour = re_or (re_then (re_chr CHR ''1'') (re_range CHR ''0'' CHR ''2''))
            (re_or (re_then (re_chr CHR ''0'') (re_range CHR ''1'' CHR ''9''))
                   (re_range CHR ''1'' CHR ''9''))"

definition re_minute :: matcher where
  "re_minute = re_or (re_then (re_range CHR ''0'' CHR ''5'') re_d) re_d"

definition re_second :: matcher where
  "re_second = re_or (re_then (re_chr CHR ''6'') (re_range CHR ''0'' CHR ''1''))
              (re_or (re_then (re_range CHR ''0'' CHR ''5'') re_d) re_d)"

definition re_ampm :: matcher where
  "re_ampm = re_or (re_then (re_letter CHR ''a'') (re_letter CHR ''m''))
                   (re_then (re_letter CHR ''p'') (re_letter CHR ''m''))"

record found_dict =
  g_m :: string
  g_d :: string
  g_y :: string
  g_I :: string
  g_M :: string
  g_S :: string
  g_p :: string

definition format_regex :: "string \<Rightarrow> (found_dict \<times> string) list" where
  "format_regex s =
     [(\<lparr>g_m = m, g_d = d, g_y = y, g_I = h, g_M = mi, g_S = sec, g_p = p\<rparr>, r13).
        (m, r1) \<leftarrow> re_month s, (x1, r2) \<leftarrow> re_chr CHR ''/'' r1,
        (d, r3) \<leftarrow> re_day r2, (x2, r4) \<leftarrow> re_chr CHR ''/'' r3,
        (y, r5) \<leftarrow> re_year r4, (w1, r6) \<leftarrow> re_spaces r5,
        (h, r7) \<leftarrow> re_hour r6, (x3, r8) \<leftarrow> re_chr CHR '':'' r7,
        (mi, r9) \<leftarrow> re_minute r8, (x4, r10) \<leftarrow> re_chr CHR '':'' r9,
        (sec, r11) \<leftarrow> re_second r10, (w2, r12) \<leftarrow> re_spaces r11,
        (p, r13) \<leftarrow> re_ampm r12]"

definition group_int :: "string \<Rightarrow> nat" where
  \<comment> \<open>\<^verbatim>\<open>int\<close> of a matched group: one or two digits, for the day perhaps after a blank\<close>
  "group_int g = dec_value (filter is_digit g)"

definition century :: "nat \<Rightarrow> nat" where
  \<comment> \<open>\<^verbatim>\<open>%y\<close>: 00 to 68 are the years 2000 to 2068, 69 to 99 the years 1969 to 1999\<close>
  "century y = (if y \<le> 68 then y + 2000 else y + 1900)"

definition hour24 :: "nat \<Rightarrow> string \<Rightarrow> nat" where
  \<comment> \<open>\<^verbatim>\<open>%I\<close> with \<^verbatim>\<open>%p\<close>: 12 AM is hour 0, 12 PM is hour 12\<close>
  "hour24 h ampm =
     (if ampm = ''am'' then (if h = 12 then 0 else h)
      else if ampm = ''pm'' then (if h \<noteq> 12 then h + 12 else h)
      else h)"

definition check_datetime :: "nat \<Rightarrow> nat \<Rightarrow> nat \<Rightarrow> nat \<Rightarrow> nat \<Rightarrow> nat \<Rightarrow> datetime result" where
  \<comment> \<open>the checks of the \<^verbatim>\<open>date\<close> and \<^verbatim>\<open>datetime\<close> constructors that the
      regular expression has not made already\<close>
  "check_datetime y mo d h mi sec =
     (if days_in_month y mo < d then Inl (ValueError ''day is out of range for month'')
      else if 59 < sec then Inl (ValueError ''second must be in 0..59'')
      else Inr \<lparr>year = y, month = mo, day = d, hour = h, minute = mi, second = sec,
                tzinfo = None\<rparr>)"

definition datetime_of :: "found_dict \<Rightarrow> datetime result" where
  "datetime_of found =
     check_datetime (century (group_int (g_y found))) (group_int (g_m found))
       (group_int (g_d found)) (hour24 (group_int (g_I found)) (map lower_ascii (g_p found)))
       (group_int (g_M found)) (group_int (g_S found))"

fun from_match :: "string \<Rightarrow> (found_dict \<times> string) list \<Rightarrow> datetime result" where
  "from_match data_string [] =
     Inl (ValueError (''time data '' @ py_repr data_string @ '' does not match format ''
                      @ py_repr ''%m/%d/%y %I:%M:%S %p''))"
| "from_match data_string ((found, rest) # others) =
     (if rest \<noteq> [] then Inl (ValueError (''unconverted data remains: '' @ rest))
      else datetime_of found)"

definition strptime :: "string \<Rightarrow> datetime result" where
  "strptime data_string = from_match data_string (format_regex data_string)"

subsection \<open>\<^verbatim>\<open>format_timestamp\<close>\<close>

text \<open>
  \<^verbatim>\<open>
  def format_timestamp(timestamp):
      py_timestamp = datetime.datetime.strptime(timestamp, '%m/%d/%y %I:%M:%S %p')
      py_timestamp = py_timestamp.replace(tzinfo=pacific_tz)
      eastern_datetime = py_timestamp.astimezone(eastern_tz)
      return eastern_datetime.isoformat()
  \<close>
\<close>

definition format_timestamp :: "string \<Rightarrow> string result" where
  "format_timestamp timestamp =
     bind_r (strptime timestamp) (\<lambda>py_timestamp.
       Inr (isoformat (astimezone (replace_tzinfo py_timestamp pacific_tz) eastern_tz)))"

subsection \<open>\<^verbatim>\<open>validate_zip\<close> and \<^verbatim>\<open>format_full_name\<close>\<close>

text \<open>
  \<^verbatim>\<open>
  def validate_zip(zip_code):
      int(zip_code)
      add_zeroes = 5 - len(zip_code)
      if add_zeroes:
          return '0' * add_zeroes + zip_code
      return zip_code

  def format_full_name(full_name):
      return full_name.upper()
  \<close>
  \<^verbatim>\<open>add_zeroes\<close> is truthy when it is not zero, also when it is negative; then
  \<^verbatim>\<open>'0' * add_zeroes\<close> is the empty string.
\<close>

definition validate_zip :: "string \<Rightarrow> string result" where
  "validate_zip zip_code =
     bind_r (py_int zip_code) (\<lambda>_.
       if 5 - int (length zip_code) \<noteq> 0
       then Inr (str_repeat ''0'' (5 - int (length zip_code)) @ zip_code)
       else Inr zip_code)"

definition format_full_name :: "(string \<Rightarrow> string) \<Rightarrow> string \<Rightarrow> string" where
  "format_full_name upper full_name = upper full_name"

subsection \<open>The built-in \<^verbatim>\<open>float\<close>\<close>

text \<open>
  A Python \<^verbatim>\<open>float\<close> is an IEEE 754 binary64 value. \<open>Finite m e\<close> is the number
  \<open>m * 2^e\<close>, kept with \<open>m\<close> odd, and zero is \<open>Finite 0 0\<close>. The sign of zero is
  not kept: a duration is an integer converted to a float plus the parsed seconds, and under
  rounding to nearest such a sum is never the negative zero. Every operation rounds the exact
  result to the nearest binary64 value, ties to the even significand.
\<close>

datatype pyfloat = Finite int int | Infinity bool | NaN

fun bitlen :: "nat \<Rightarrow> nat" where
  "bitlen n = (if n = 0 then 0 else Suc (bitlen (n div 2)))"

declare bitlen.simps [simp del]

definition log2_adjust :: "nat \<Rightarrow> nat \<Rightarrow> int \<Rightarrow> int" where
  "log2_adjust n d k =
     (if (if 0 \<le> k then d * 2 ^ nat k \<le> n else d \<le> n * 2 ^ nat (- k)) then k else k - 1)"

definition floor_log2 :: "nat \<Rightarrow> nat \<Rightarrow> int" where
  \<comment> \<open>the integer \<open>k\<close> with \<open>2^k \<le> n / d < 2^(k+1)\<close>, for positive \<open>n\<close> and \<open>d\<close>\<close>
  "floor_log2 n d = log2_adjust n d (int (bitlen n) - int (bitlen d))"

definition round_half_even :: "nat \<Rightarrow> nat \<Rightarrow> nat" where
  \<comment> \<open>\<open>n / d\<close> rounded to the nearest integer, a tie to the even one\<close>
  "round_half_even n d =
     (if 2 * (n mod d) < d then n div d
      else if d < 2 * (n mod d) then n div d + 1
      else if even (n div d) then n div d
      else n div d + 1)"

function normal :: "int \<Rightarrow> int \<Rightarrow> pyfloat" where
  "normal m e =
     (if m = 0 then Finite 0 0 else if even m then normal (m div 2) (e + 1) else Finite m e)"
  by pat_completeness auto
termination
  by (relation "measure (\<lambda>(m, e). nat \<bar>m\<bar>)") auto

declare normal.simps [simp del]

definition round_mant :: "bool \<Rightarrow> int \<Rightarrow> nat \<Rightarrow> pyfloat" where
  \<comment> \<open>infinite from \<open>2^1024\<close> on\<close>
  "round_mant neg e mant =
     (if 1024 < int (bitlen mant) + e then Infinity neg
      else normal (if neg then - int mant else int mant) e)"

definition round_at :: "bool \<Rightarrow> nat \<Rightarrow> nat \<Rightarrow> int \<Rightarrow> pyfloat" where
  \<comment> \<open>\<open>n / d\<close> rounded to a multiple of \<open>2^e\<close>\<close>
  "round_at neg n d e =
     round_mant neg e
       (if 0 \<le> e then round_half_even n (d * 2 ^ nat e)
        else round_half_even (n * 2 ^ nat (- e)) d)"

definition round_double :: "bool \<Rightarrow> nat \<Rightarrow> nat \<Rightarrow> pyfloat" where
  \<comment> \<open>the binary64 value nearest to \<open>n / d\<close> (negated when \<open>neg\<close>): 53 significant bits,
      the exponent of the last bit at least -1074\<close>
  "round_double neg n d =
     (if n = 0 then Finite 0 0 else round_at neg n d (max (floor_log2 n d - 52) (- 1074)))"

fun finite_or_overflow :: "pyfloat \<Rightarrow> pyfloat result" where
  "finite_or_overflow (Infinity neg) = Inl (OverflowError ''int too large to convert to float'')"
| "finite_or_overflow x = Inr x"

definition float_of_int :: "int \<Rightarrow> pyfloat result" where
  \<comment> \<open>the conversion Python makes to add an \<^verbatim>\<open>int\<close> to a \<^verbatim>\<open>float\<close>\<close>
  "float_of_int i = finite_or_overflow (round_double (i < 0) (nat \<bar>i\<bar>) 1)"

definition round_dyadic :: "int \<Rightarrow> int \<Rightarrow> pyfloat" where
  \<comment> \<open>the binary64 value nearest to \<open>s * 2^e\<close>\<close>
  "round_dyadic s e =
     (if 0 \<le> e then round_double (s < 0) (nat \<bar>s\<bar> * 2 ^ nat e) 1
      else round_double (s < 0) (nat \<bar>s\<bar>) (2 ^ nat (- e)))"

fun float_add :: "pyfloat \<Rightarrow> pyfloat \<Rightarrow> pyfloat" where
  "float_add NaN y = NaN"
| "float_add x NaN = NaN"
| "float_add (Infinity a) (Infinity b) = (if a = b then Infinity a else NaN)"
| "float_add (Infinity a) (Finite m e) = Infinity a"
| "float_add (Finite m e) (Infinity b) = Infinity b"
| "float_add (Finite m1 e1) (Finite m2 e2) =
     round_dyadic (m1 * 2 ^ nat (e1 - min e1 e2) + m2 * 2 ^ nat (e2 - min e1 e2)) (min e1 e2)"

declare float_add.simps [simp del]

definition strip_spaces :: "string \<Rightarrow> string" where
  "strip_spaces s = rev (dropWhile is_ascii_space (rev (dropWhile is_ascii_space s)))"

fun underscores_ok :: "char \<Rightarrow> string \<Rightarrow> bool" where
  \<comment> \<open>an underscore stands only after a digit and before a digit\<close>
  "underscores_ok prev [] = (prev \<noteq> CHR ''_'')"
| "underscores_ok prev (c # s) =
     ((if c = CHR ''_'' then is_digit prev else if prev = CHR ''_'' then is_digit c else True)
      \<and> underscores_ok c s)"

definition decimal :: "bool \<Rightarrow> string \<Rightarrow> int \<Rightarrow> pyfloat" where
  \<comment> \<open>the digits \<open>ds\<close> read as an integer, times \<open>10^x\<close>, correctly rounded\<close>
  "decimal neg ds x =
     (if 0 \<le> x then round_double neg (dec_value ds * 10 ^ nat x) 1
      else round_double neg (dec_value ds) (10 ^ nat (- x)))"

definition float_exponent :: "bool \<Rightarrow> string \<Rightarrow> nat \<Rightarrow> bool \<Rightarrow> string \<Rightarrow> pyfloat option" where
  \<comment> \<open>the digits of the exponent, which must be there and end the text\<close>
  "float_exponent neg ds fl eneg r =
     (if r = [] \<or> dropWhile is_digit r \<noteq> [] then None
      else Some (decimal neg ds
                   ((if eneg then - int (dec_value r) else int (dec_value r)) - int fl)))"

definition float_tail :: "bool \<Rightarrow> string \<Rightarrow> string \<Rightarrow> string \<Rightarrow> pyfloat option" where
  \<comment> \<open>after the integer part \<open>ip\<close> and the fraction \<open>fp\<close>: the end, or an exponent\<close>
  "float_tail neg ip fp r =
     (if ip = [] \<and> fp = [] then None
      else if r = [] then Some (decimal neg (ip @ fp) (- int (length fp)))
      else if lower_ascii (hd r) \<noteq> CHR ''e'' then None
      else if tl r \<noteq> [] \<and> hd (tl r) = CHR ''-''
        then float_exponent neg (ip @ fp) (length fp) True (tl (tl r))
      else if tl r \<noteq> [] \<and> hd (tl r) = CHR ''+''
        then float_exponent neg (ip @ fp) (length fp) False (tl (tl r))
      else float_exponent neg (ip @ fp) (length fp) False (tl r))"

definition float_number :: "bool \<Rightarrow> string \<Rightarrow> string \<Rightarrow> pyfloat option" where
  \<comment> \<open>after the integer part: an optional point and fraction\<close>
  "float_number neg ip r =
     (if r \<noteq> [] \<and> hd r = CHR ''.''
      then float_tail neg ip (takeWhile is_digit (tl r)) (dropWhile is_digit (tl r))
      else float_tail neg ip [] r)"

definition float_unsigned :: "bool \<Rightarrow> string \<Rightarrow> pyfloat option" where
  "float_unsigned neg v =
     (if map lower_ascii v = ''inf'' \<or> map lower_ascii v = ''infinity'' then Some (Infinity neg)
      else if map lower_ascii v = ''nan'' then Some NaN
      else float_number neg (takeWhile is_digit v) (dropWhile is_digit v))"

definition float_signed :: "string \<Rightarrow> pyfloat option" where
  "float_signed u =
     (if u \<noteq> [] \<and> hd u = CHR ''-'' then float_unsigned True (tl u)
      else if u \<noteq> [] \<and> hd u = CHR ''+'' then float_unsigned False (tl u)
      else float_unsigned False u)"

definition float_stripped :: "string \<Rightarrow> pyfloat option" where
  "float_stripped t =
     (if underscores_ok (CHR 0x00) t then float_signed (filter (\<lambda>c. c \<noteq> CHR ''_'') t) else None)"

definition parse_float :: "string \<Rightarrow> pyfloat option" where
  \<comment> \<open>the grammar of \<^verbatim>\<open>float(s)\<close>: blanks around an optional sign and either
      \<^verbatim>\<open>inf\<close>, \<^verbatim>\<open>infinity\<close>, \<^verbatim>\<open>nan\<close> in any case, or digits with an optional
      point and an optional exponent, with at least one digit before the exponent; single
      underscores between digits are dropped\<close>
  "parse_float s = float_stripped (strip_spaces (to_ascii s))"

fun float_result :: "string \<Rightarrow> pyfloat option \<Rightarrow> pyfloat result" where
  "float_result s None = Inl (ValueError (''could not convert string to float: '' @ py_repr s))"
| "float_result s (Some x) = Inr x"

definition py_float :: "string \<Rightarrow> pyfloat result" where
  "py_float s = float_result s (parse_float s)"

text \<open>
  \<^verbatim>\<open>str\<close> of a float is its \<^verbatim>\<open>repr\<close>: the shortest run of decimal digits that
  reads back as the same float (of two such runs the one nearer to it), written with a
  point, or with an exponent when the value is below \<open>10^-4\<close> or at least \<open>10^16\<close>.
\<close>

function frac_zeros :: "nat \<Rightarrow> nat \<Rightarrow> nat" where
  \<comment> \<open>for \<open>0 < n < d\<close>: the number of zeros between the point and the first digit of \<open>n / d\<close>\<close>
  "frac_zeros n d = (if n = 0 \<or> d \<le> n * 10 then 0 else Suc (frac_zeros (n * 10) d))"
  by pat_completeness auto
termination
  by (relation "measure (\<lambda>(n, d). d - n)") auto

declare frac_zeros.simps [simp del]

definition dec_point :: "nat \<Rightarrow> nat \<Rightarrow> int" where
  \<comment> \<open>the \<open>k\<close> with \<open>10^(k-1) \<le> n / d < 10^k\<close>\<close>
  "dec_point n d =
     (if d \<le> n then int (length (digits_of (n div d))) else - int (frac_zeros n d))"

definition pow10 :: "int \<Rightarrow> nat" where
  \<comment> \<open>\<open>10^x\<close> for \<open>x \<ge> 0\<close>, and 1 otherwise, so that \<open>10^x\<close> is the fraction
      \<open>pow10 x / pow10 (- x)\<close>\<close>
  "pow10 x = (if 0 \<le> x then 10 ^ nat x else 1)"

definition pow2 :: "int \<Rightarrow> nat" where
  "pow2 x = (if 0 \<le> x then 2 ^ nat x else 1)"

definition rounds_to :: "nat \<Rightarrow> int \<Rightarrow> pyfloat \<Rightarrow> bool" where
  \<comment> \<open>the decimal \<open>c * 10^x\<close> reads back as the float \<open>f\<close>\<close>
  "rounds_to c x f = (round_double False (c * pow10 x) (pow10 (- x)) = f)"

definition candidate :: "nat \<Rightarrow> nat \<Rightarrow> int \<Rightarrow> pyfloat \<Rightarrow> (nat \<times> int) option" where
  \<comment> \<open>of the two multiples of \<open>10^x\<close> next to \<open>num / den * 10^x\<close>, the nearer one if it
      reads back as \<open>f\<close>, else the other one if that does\<close>
  "candidate num den x f =
     (if rounds_to (round_half_even num den) x f then Some (round_half_even num den, x)
      else if rounds_to (if round_half_even num den = num div den then num div den + 1
                         else num div den) x f
        then Some (if round_half_even num den = num div den then num div den + 1
                   else num div den, x)
      else None)"

function shortest :: "int \<Rightarrow> nat \<Rightarrow> nat \<Rightarrow> int \<Rightarrow> pyfloat \<Rightarrow> nat \<times> int" where
  \<comment> \<open>\<open>shortest p n d k f\<close>: the first decimal \<open>c * 10^(k-p)\<close> of \<open>p\<close> digits or more
      that reads back as \<open>f = n / d\<close>; 17 digits always do\<close>
  "shortest p n d k f =
     (case candidate (n * pow10 (p - k)) (d * pow10 (k - p)) (k - p) f of
        Some cx \<Rightarrow> cx
      | None \<Rightarrow>
          if 17 \<le> p then (round_half_even (n * pow10 (p - k)) (d * pow10 (k - p)), k - p)
          else shortest (p + 1) n d k f)"
  by pat_completeness auto
termination
  by (relation "measure (\<lambda>(p, n, d, k, f). nat (17 - p))") auto

declare shortest.simps [simp del]

definition strip_zeros :: "string \<Rightarrow> string" where
  "strip_zeros ds = rev (dropWhile (\<lambda>c. c = CHR ''0'') (rev ds))"

definition format_short :: "string \<Rightarrow> int \<Rightarrow> string" where
  \<comment> \<open>the digits \<open>ds\<close> with the point after the first \<open>decpt\<close> of them\<close>
  "format_short ds decpt =
     (if decpt \<le> - 4 \<or> 16 < decpt then
        [hd ds] @ (if tl ds = [] then [] else ''.'' @ tl ds) @ ''e''
        @ (if decpt - 1 < 0 then ''-'' else ''+'') @ zero_pad 2 (nat \<bar>decpt - 1\<bar>)
      else if decpt \<le> 0 then ''0.'' @ replicate (nat (- decpt)) CHR ''0'' @ ds
      else if nat decpt < length ds then take (nat decpt) ds @ ''.'' @ drop (nat decpt) ds
      else ds @ replicate (nat decpt - length ds) CHR ''0'' @ ''.0'')"

definition repr_digits :: "nat \<times> int \<Rightarrow> string" where
  "repr_digits cx =
     format_short (strip_zeros (digits_of (fst cx))) (snd cx + int (length (digits_of (fst cx))))"

definition repr_ratio :: "nat \<Rightarrow> nat \<Rightarrow> pyfloat \<Rightarrow> string" where
  "repr_ratio n d f = repr_digits (shortest 1 n d (dec_point n d) f)"

definition float_repr_finite :: "nat \<Rightarrow> int \<Rightarrow> string" where
  \<comment> \<open>the text of the positive float \<open>m * 2^e\<close>\<close>
  "float_repr_finite m e = repr_ratio (m * pow2 e) (pow2 (- e)) (Finite (int m) e)"

fun float_str :: "pyfloat \<Rightarrow> string" where
  "float_str NaN = ''nan''"
| "float_str (Infinity neg) = (if neg then ''-inf'' else ''inf'')"
| "float_str (Finite m e) =
     (if m = 0 then ''0.0''
      else (if m < 0 then ''-'' else []) @ float_repr_finite (nat \<bar>m\<bar>) e)"

declare float_str.simps [simp del]

subsection \<open>\<^verbatim>\<open>convert_duration\<close> and \<^verbatim>\<open>get_total_duration\<close>\<close>

text \<open>
  \<^verbatim>\<open>
  def convert_duration(duration):
      h, m, s = duration.split(':')
      total_seconds = int(h) * 3600 + int(m) * 60 + float(s)
      return total_seconds

  def get_total_duration(foo_duration, bar_duration):
      return foo_duration + bar_duration
  \<close>
  The two products and their sum are exact integers; the sum is converted to a float, which
  raises \<^verbatim>\<open>OverflowError\<close> when it is too large, and added to the seconds.
  \<^verbatim>\<open>str(x)\<close> of the result is \<open>float_str x\<close>.
\<close>

fun split_acc :: "char \<Rightarrow> string \<Rightarrow> string \<Rightarrow> string list" where
  "split_acc sep acc [] = [rev acc]"
| "split_acc sep acc (c # s) =
     (if c = sep then rev acc # split_acc sep [] s else split_acc sep (c # acc) s)"

definition str_split :: "string \<Rightarrow> char \<Rightarrow> string list" where
  \<comment> \<open>\<^verbatim>\<open>s.split(sep)\<close> for a separator of one character\<close>
  "str_split s sep = split_acc sep [] s"

fun unpack3 :: "string list \<Rightarrow> (string \<times> string \<times> string) result" where
  "unpack3 [h, m, s] = Inr (h, m, s)"
| "unpack3 parts =
     (if length parts < 3
      then Inl (ValueError (''not enough values to unpack (expected 3, got ''
                            @ digits_of (length parts) @ '')''))
      else Inl (ValueError ''too many values to unpack (expected 3)''))"

definition convert_duration :: "string \<Rightarrow> pyfloat result" where
  "convert_duration duration =
     bind_r (unpack3 (str_split duration CHR '':'')) (\<lambda>(h, m, s).
     bind_r (py_int h) (\<lambda>hours.
     bind_r (py_int m) (\<lambda>minutes.
     bind_r (py_float s) (\<lambda>seconds.
     bind_r (float_of_int (hours * 3600 + minutes * 60)) (\<lambda>whole.
       Inr (float_add whole seconds))))))"

definition huge_duration :: string where
  \<comment> \<open>a duration of \<open>10^400\<close> hours: the digit 1, four hundred zeros, and \<^verbatim>\<open>:0:0\<close>\<close>
  "huge_duration = ''1'' @ replicate 400 CHR ''0'' @ '':0:0''"

definition get_total_duration :: "pyfloat \<Rightarrow> pyfloat \<Rightarrow> pyfloat" where
  "get_total_duration foo_duration bar_duration = float_add foo_duration bar_duration"

subsection \<open>\<^verbatim>\<open>clean_and_normalize_row\<close>\<close>

text \<open>
  \<^verbatim>\<open>
  def clean_and_normalize_row(row):
      try:
          cleaned_row = []
          cleaned_row.append(format_timestamp(row[0]))
          cleaned_row.append(clean_address(row[1]))
          cleaned_row.append(validate_zip(row[2]))
          cleaned_row.append(format_full_name(row[3]))
          foo_duration = convert_duration(row[4])
          cleaned_row.append(str(foo_duration))
          bar_duration = convert_duration(row[5])
          cleaned_row.append(str(bar_duration))
          total_duration = get_total_duration(foo_duration, bar_duration)
          cleaned_row.append(str(total_duration))
          cleaned_row.append(row[7])
          return cleaned_row
      except ValueError as error:
          print_error(error)
  \<close>
  \<open>try_block\<close> is the body of the \<^verbatim>\<open>try\<close>. The handler takes a
  \<^verbatim>\<open>ValueError\<close> only: then the function prints the warning and returns
  \<^verbatim>\<open>None\<close>. Any other exception leaves the function.
\<close>

definition py_index :: "'a list \<Rightarrow> nat \<Rightarrow> 'a result" where
  "py_index xs i = (if i < length xs then Inr (xs ! i) else Inl (IndexError ''list index out of range''))"

definition try_block :: "(string \<Rightarrow> string) \<Rightarrow> string list \<Rightarrow> string list result" where
  "try_block upper row =
     (let cleaned_row = [] in
      bind_r (py_index row 0) (\<lambda>r0. bind_r (format_timestamp r0) (\<lambda>v0.
      let cleaned_row = cleaned_row @ [v0] in
      bind_r (py_index row 1) (\<lambda>r1.
      let cleaned_row = cleaned_row @ [clean_address r1] in
      bind_r (py_index row 2) (\<lambda>r2. bind_r (validate_zip r2) (\<lambda>v2.
      let cleaned_row = cleaned_row @ [v2] in
      bind_r (py_index row 3) (\<lambda>r3.
      let cleaned_row = cleaned_row @ [format_full_name upper r3] in
      bind_r (py_index row 4) (\<lambda>r4. bind_r (convert_duration r4) (\<lambda>foo_duration.
      let cleaned_row = cleaned_row @ [float_str foo_duration] in
      bind_r (py_index row 5) (\<lambda>r5. bind_r (convert_duration r5) (\<lambda>bar_duration.
      let cleaned_row = cleaned_row @ [float_str bar_duration];
          total_duration = get_total_duration foo_duration bar_duration;
          cleaned_row = cleaned_row @ [float_str total_duration] in
      bind_r (py_index row 7) (\<lambda>r7.
      let cleaned_row = cleaned_row @ [r7] in
      Inr cleaned_row))))))))))))"

fun except_ValueError ::
    "string list result \<Rightarrow> channels \<Rightarrow> string list option result \<times> channels" where
  "except_ValueError (Inr cleaned_row) io = (Inr (Some cleaned_row), io)"
| "except_ValueError (Inl (ValueError msg)) io = (Inr None, print_error (ValueError msg) io)"
| "except_ValueError (Inl error) io = (Inl error, io)"

definition clean_and_normalize_row ::
    "(string \<Rightarrow> string) \<Rightarrow> string list \<Rightarrow> channels
       \<Rightarrow> string list option result \<times> channels" where
  "clean_and_normalize_row upper row io = except_ValueError (try_block upper row) io"

subsection \<open>\<^verbatim>\<open>read_and_clean_file\<close>\<close>

text \<open>
  \<^verbatim>\<open>
  def read_and_clean_file():
      ...
      csv_rows = csv.reader(csv_usable_lines)
      header = next(csv_rows)
      header = ','.join(header)
      print(header)
      for row in csv_rows:
          normalized_data = clean_and_normalize_row(row)
          if normalized_data:
              print(','.join(normalized_data))
  \<close>
  The input is the list of rows the \<^verbatim>\<open>csv.reader\<close> yields. The result is the
  exception that ended the run, if one did, and what was printed. A run ended by an
  exception makes the interpreter print a traceback and exit with status 1. The test
  \<^verbatim>\<open>if normalized_data\<close> is false for \<^verbatim>\<open>None\<close> and for the empty list.
\<close>

fun str_join :: "string \<Rightarrow> string list \<Rightarrow> string" where
  "str_join sep [] = []"
| "str_join sep [x] = x"
| "str_join sep (x # y # xs) = x @ sep @ str_join sep (y # xs)"

definition print_out :: "string \<Rightarrow> channels \<Rightarrow> channels" where
  "print_out line io = io\<lparr>stdout := stdout io @ [line]\<rparr>"

fun print_if_truthy :: "string list option \<Rightarrow> channels \<Rightarrow> channels" where
  "print_if_truthy None io = io"
| "print_if_truthy (Some cleaned_row) io =
     (if cleaned_row \<noteq> [] then print_out (str_join '','' cleaned_row) io else io)"

fun for_rows ::
    "(string \<Rightarrow> string) \<Rightarrow> string list list \<Rightarrow> channels \<Rightarrow> exn option \<times> channels" where
  "for_rows upper [] io = (None, io)"
| "for_rows upper (row # csv_rows) io =
     (case clean_and_normalize_row upper row io of
        (Inl error, io') \<Rightarrow> (Some error, io')
      | (Inr normalized_data, io') \<Rightarrow>
          for_rows upper csv_rows (print_if_truthy normalized_data io'))"

definition no_output :: channels where
  \<comment> \<open>nothing printed yet\<close>
  "no_output = \<lparr>stdout = [], stderr = []\<rparr>"


fun read_and_clean_file ::
    "(string \<Rightarrow> string) \<Rightarrow> string list list \<Rightarrow> exn option \<times> channels" where
  "read_and_clean_file upper [] = (Some StopIteration, no_output)"
| "read_and_clean_file upper (header # data_rows) =
     for_rows upper data_rows (print_out (str_join '','' header) no_output)"

fun exit_status :: "exn option \<times> channels \<Rightarrow> nat" where
  "exit_status (None, io) = 0"
| "exit_status (Some error, io) = 1"

section \<open>Properties\<close>

subsection \<open>Address quoting\<close>

lemma clean_address_comma:
  "CHR '','' \<in> set a \<Longrightarrow> clean_address a = CHR 0x22 # a @ [CHR 0x22]"
  by (simp add: clean_address_def)

lemma clean_address_no_comma:
  "CHR '','' \<notin> set a \<Longrightarrow> clean_address a = a"
  by (simp add: clean_address_def)

lemma clean_address_keeps_comma:
  "CHR '','' \<in> set a \<Longrightarrow> CHR '','' \<in> set (clean_address a)"
  by (simp add: clean_address_def)

text \<open>
  Claim C8. \<^verbatim>\<open>clean_address\<close> has no raising branch: it returns a string for every
  input. A value holding a comma comes back with one double quote (code point 0x22) put in
  front of it and one behind it, and its own characters untouched, embedded double quotes
  included; a value with no comma comes back as it is. So \<^verbatim>\<open>123 Main St, Apt 4\<close> is
  wrapped in quotes and \<^verbatim>\<open>123 Main St\<close> is unchanged.
\<close>

theorem clean_address_total_quoting:
  "clean_address a = (if CHR '','' \<in> set a then [CHR 0x22] @ a @ [CHR 0x22] else a)
   \<and> clean_address (x @ [CHR 0x22, CHR '',''] @ y) = [CHR 0x22] @ x @ [CHR 0x22, CHR '',''] @ y @ [CHR 0x22]
   \<and> clean_address ''123 Main St, Apt 4'' = [CHR 0x22] @ ''123 Main St, Apt 4'' @ [CHR 0x22]
   \<and> clean_address ''123 Main St'' = ''123 Main St''"
  by (simp add: clean_address_def)

text \<open>
  Claim C9. On a value that holds a comma the address normalizer is not idempotent: the
  second application finds the comma again and wraps the already quoted value in a second
  pair of quotes, so the result of two applications differs from the result of one.
\<close>

theorem clean_address_not_idempotent:
  assumes "CHR '','' \<in> set a"
  shows "clean_address (clean_address a) = [CHR 0x22] @ clean_address a @ [CHR 0x22]
         \<and> clean_address (clean_address a) \<noteq> clean_address a"
proof -
  have "CHR '','' \<in> set (clean_address a)"
    using assms by (rule clean_address_keeps_comma)
  then have twice: "clean_address (clean_address a) = CHR 0x22 # clean_address a @ [CHR 0x22]"
    by (rule clean_address_comma)
  have "length (clean_address (clean_address a)) = length (clean_address a) + 2"
    by (simp add: twice)
  then have "clean_address (clean_address a) \<noteq> clean_address a"
    by auto
  with twice show ?thesis by simp
qed

theorem clean_address_not_idempotent_witness:
  "CHR '','' \<in> set ([CHR 0x22] @ ''a,b'' @ [CHR 0x22])
   \<and> clean_address (clean_address ([CHR 0x22] @ ''a,b'' @ [CHR 0x22]))
       = [CHR 0x22, CHR 0x22, CHR 0x22] @ ''a,b'' @ [CHR 0x22, CHR 0x22, CHR 0x22]
   \<and> clean_address (clean_address ([CHR 0x22] @ ''a,b'' @ [CHR 0x22]))
       \<noteq> clean_address ([CHR 0x22] @ ''a,b'' @ [CHR 0x22])"
  using clean_address_not_idempotent [of "[CHR 0x22] @ ''a,b'' @ [CHR 0x22]"]
  by (simp add: clean_address_def)

subsection \<open>Evaluation on concrete inputs\<close>

lemma bind_r_weak_cong: "m = m' \<Longrightarrow> bind_r m f = bind_r m' f"
  by simp

lemmas eval_cong = if_weak_cong let_weak_cong bind_r_weak_cong

lemma bitlen_eval:
  "bitlen 0 = 0" "bitlen (Suc 0) = 1"
  "bitlen (numeral k) = Suc (bitlen (numeral k div 2))"
  by (simp_all add: bitlen.simps [of 0] bitlen.simps [of "Suc 0"] bitlen.simps [of "numeral k"])

lemma normal_eval:
  "normal 0 e = Finite 0 0"
  "normal 1 e = Finite 1 e"
  "normal (- 1) e = Finite (- 1) e"
  "normal (numeral k) e =
     (if even (numeral k :: int) then normal (numeral k div 2) (e + 1) else Finite (numeral k) e)"
  "normal (- numeral k) e =
     (if even (numeral k :: int) then normal (- numeral k div 2) (e + 1)
      else Finite (- numeral k) e)"
  by (simp_all add: normal.simps [of 0] normal.simps [of 1] normal.simps [of "- 1"]
        normal.simps [of "numeral k"] normal.simps [of "- numeral k"])

lemma replicate_eval: "replicate (numeral k) x = x # replicate (pred_numeral k) x"
  by (simp add: numeral_eq_Suc)

lemma digits_of_eval:
  "digits_of 0 = [digit_char 0]" "digits_of (Suc 0) = [digit_char 1]"
  "digits_of (numeral k) =
     (if numeral k < (10::nat) then [digit_char (numeral k)]
      else digits_of (numeral k div 10) @ [digit_char (numeral k)])"
  by (simp_all add: digits_of.simps [of 0] digits_of.simps [of "Suc 0"]
        digits_of.simps [of "numeral k"])

lemma frac_zeros_eval:
  "frac_zeros 0 e = 0"
  "frac_zeros (Suc 0) (numeral d) =
     (if numeral d \<le> (10::nat) then 0 else Suc (frac_zeros 10 (numeral d)))"
  "frac_zeros (numeral n) (numeral d) =
     (if numeral d \<le> (numeral n * 10 :: nat) then 0
      else Suc (frac_zeros (numeral n * 10) (numeral d)))"
  by (simp_all add: frac_zeros.simps [of 0] frac_zeros.simps [of "Suc 0"]
        frac_zeros.simps [of "numeral n"])

lemmas shortest_eval = shortest.simps [of 1] shortest.simps [of "numeral p"] for p

lemma shift_days_eval:
  "shift_days 0 dt = dt" "shift_days 1 dt = next_day dt" "shift_days (- 1) dt = prev_day dt"
  by (simp_all add: shift_days_def)

lemmas char_eval = code_def is_digit_def digit_val_def is_ascii_space_def is_unicode_space_def
  lower_ascii_def digit_char_def

lemmas int_eval = py_int_def parse_int_def int_signed_def int_body_def int_digits_def
  to_ascii_def dec_value_def

lemmas float_eval = round_double_def round_at_def round_mant_def floor_log2_def log2_adjust_def
  round_half_even_def bitlen_eval normal_eval float_of_int_def round_dyadic_def decimal_def
  float_add.simps
  pow10_def pow2_def

lemmas parse_float_eval = py_float_def parse_float_def float_stripped_def float_signed_def
  float_unsigned_def float_number_def float_tail_def float_exponent_def strip_spaces_def
  to_ascii_def dec_value_def

lemmas repr_eval = float_str.simps float_repr_finite_def repr_ratio_def repr_digits_def format_short_def
  dec_point_def frac_zeros_eval shortest_eval candidate_def rounds_to_def strip_zeros_def
  zero_pad_def digits_of_eval replicate_eval

lemmas regex_eval = format_regex_def re_month_def re_day_def re_year_def re_hour_def
  re_minute_def re_second_def re_ampm_def re_or_def re_then_def re_chr_def re_range_def
  re_d_def re_letter_def re_spaces_def

lemmas time_eval = strptime_def datetime_of_def check_datetime_def century_def hour24_def
  group_int_def dec_value_def days_in_month_def is_leap_def replace_tzinfo_def astimezone_def
  add_timedelta_def carry_days_def set_time_def shift_days_eval next_day_def prev_day_def
  pacific_tz_def eastern_tz_def pacific_offset_def eastern_offset_def timedelta_hours_def
  isoformat_def format_offset_def zero_pad_def digits_of_eval replicate_eval

lemmas row_eval = try_block_def py_index_def format_timestamp_def validate_zip_def
  format_full_name_def clean_address_def convert_duration_def
  str_split_def get_total_duration_def str_repeat_def

lemma format_timestamp_example:
  "format_timestamp ''10/2/02 10:00:00 AM'' = Inr ''2002-10-02T13:00:00-05:00''"
  by (simp add: format_timestamp_def regex_eval time_eval char_eval
        split del: if_split cong: eval_cong)

lemma strptime_example:
  "strptime ''10/2/02 10:00:00 AM''
     = Inr \<lparr>year = 2002, month = 10, day = 2, hour = 10, minute = 0, second = 0, tzinfo = None\<rparr>"
  by (simp add: regex_eval time_eval char_eval split del: if_split cong: eval_cong)

lemma validate_zip_123: "validate_zip ''123'' = Inr ''00123''"
  by (simp add: validate_zip_def int_eval char_eval str_repeat_def replicate_eval
        split del: if_split cong: eval_cong)

lemma validate_zip_12345: "validate_zip ''12345'' = Inr ''12345''"
  by (simp add: validate_zip_def int_eval char_eval str_repeat_def replicate_eval
        split del: if_split cong: eval_cong)

lemma parse_int_abc: "parse_int ''abc'' = None"
  by (simp add: int_eval char_eval split del: if_split cong: eval_cong)

lemma convert_duration_foo: "convert_duration ''1:02:03.5'' = Inr (Finite 7447 (- 1))"
  by (simp add: row_eval int_eval parse_float_eval float_eval char_eval
        split del: if_split cong: eval_cong)

lemma convert_duration_bar: "convert_duration ''0:00:01.0'' = Inr (Finite 1 0)"
  by (simp add: row_eval int_eval parse_float_eval float_eval char_eval
        split del: if_split cong: eval_cong)

lemma float_str_foo: "float_str (Finite 7447 (- 1)) = ''3723.5''"
  by (simp add: float_eval repr_eval char_eval split del: if_split cong: eval_cong)

lemma float_str_bar: "float_str (Finite 1 0) = ''1.0''"
  by (simp add: float_eval repr_eval char_eval split del: if_split cong: eval_cong)

lemma float_add_foo_bar: "float_add (Finite 7447 (- 1)) (Finite 1 0) = Finite 7449 (- 1)"
  by (simp add: float_eval split del: if_split cong: eval_cong)

lemma float_str_total: "float_str (Finite 7449 (- 1)) = ''3724.5''"
  by (simp add: float_eval repr_eval char_eval split del: if_split cong: eval_cong)

lemma upper_ascii_example: "upper_ascii ''jane doe'' = ''JANE DOE''"
  by (simp add: upper_ascii_def char_eval split del: if_split cong: eval_cong)

lemmas example_eval = format_timestamp_example validate_zip_123 convert_duration_foo
  convert_duration_bar float_str_foo float_str_bar float_add_foo_bar float_str_total

lemma try_block_example:
  "try_block upper [''10/2/02 10:00:00 AM'', ''123 Main St, Apt 4'', ''123'', ''jane doe'',
              ''1:02:03.5'', ''0:00:01.0'', ''zzz'', ''notes'']
   = Inr [''2002-10-02T13:00:00-05:00'', [CHR 0x22] @ ''123 Main St, Apt 4'' @ [CHR 0x22],
          ''00123'', upper ''jane doe'', ''3723.5'', ''1.0'', ''3724.5'', ''notes'']"
  by (simp add: try_block_def py_index_def clean_address_def get_total_duration_def
        format_full_name_def example_eval)


subsection \<open>Which exceptions the normalizers raise\<close>

lemma bind_r_case: "bind_r m f = (case m of Inl e \<Rightarrow> Inl e | Inr x \<Rightarrow> f x)"
  by (cases m) simp_all

lemma returns_iff: "returns m \<longleftrightarrow> (\<exists>x. m = Inr x)"
  by (cases m) simp_all

lemma raises_ValueError_iff: "raises_ValueError m \<longleftrightarrow> (\<exists>msg. m = Inl (ValueError msg))"
proof (cases m)
  case (Inl e)
  then show ?thesis by (cases e) simp_all
next
  case (Inr x)
  then show ?thesis by simp
qed

lemma py_int_cases:
  "py_int s = Inr n \<longleftrightarrow> parse_int s = Some n"
  "raises_ValueError (py_int s) \<longleftrightarrow> parse_int s = None"
  by (cases "parse_int s"; simp add: py_int_def)+

lemma py_float_cases:
  "py_float s = Inr x \<longleftrightarrow> parse_float s = Some x"
  "raises_ValueError (py_float s) \<longleftrightarrow> parse_float s = None"
  by (cases "parse_float s"; simp add: py_float_def)+

lemma strptime_returns_or_ValueError:
  "returns (strptime s) \<or> raises_ValueError (strptime s)"
proof (cases "format_regex s")
  case Nil
  then show ?thesis by (simp add: strptime_def)
next
  case (Cons a others)
  then show ?thesis
    by (cases a) (simp add: strptime_def datetime_of_def check_datetime_def)
qed

lemma format_timestamp_returns_or_ValueError:
  "returns (format_timestamp s) \<or> raises_ValueError (format_timestamp s)"
  using strptime_returns_or_ValueError [of s]
  by (auto simp: format_timestamp_def returns_iff raises_ValueError_iff)

subsection \<open>Zip codes\<close>

lemma str_repeat_char: "str_repeat [c] n = replicate (nat n) c"
proof -
  have "concat (replicate k [c]) = replicate k c" for k
    by (induction k) simp_all
  then show ?thesis by (simp add: str_repeat_def)
qed

lemma validate_zip_parsed:
  assumes "parse_int z = Some n"
  shows "validate_zip z = Inr (if length z < 5 then replicate (5 - length z) CHR ''0'' @ z else z)"
proof -
  have int: "py_int z = Inr n"
    using assms by (simp add: py_int_cases)
  have pad: "nat (5 - int (length z)) = 5 - length z"
    by simp
  show ?thesis
    by (simp add: validate_zip_def int str_repeat_char pad del: of_nat_diff)
qed

lemma validate_zip_unparsed:
  assumes "parse_int z = None"
  shows "raises_ValueError (validate_zip z)"
  using assms by (simp add: validate_zip_def py_int_def)

lemma zip_abc_dropped:
  "\<exists>msg. clean_and_normalize_row upper (ts # addr # ''abc'' # rest) io
            = (Inr None, print_error (ValueError msg) io)"
proof -
  have zip: "raises_ValueError (validate_zip ''abc'')"
    by (rule validate_zip_unparsed) (rule parse_int_abc)
  then obtain m where m: "validate_zip ''abc'' = Inl (ValueError m)"
    by (auto simp: raises_ValueError_iff)
  from format_timestamp_returns_or_ValueError [of ts]
  show ?thesis
  proof
    assume "returns (format_timestamp ts)"
    then obtain v where "format_timestamp ts = Inr v"
      by (auto simp: returns_iff)
    then have "try_block upper (ts # addr # ''abc'' # rest) = Inl (ValueError m)"
      by (simp add: try_block_def py_index_def m)
    then show ?thesis
      by (auto simp: clean_and_normalize_row_def)
  next
    assume "raises_ValueError (format_timestamp ts)"
    then obtain m' where "format_timestamp ts = Inl (ValueError m')"
      by (auto simp: raises_ValueError_iff)
    then have "try_block upper (ts # addr # ''abc'' # rest) = Inl (ValueError m')"
      by (simp add: try_block_def py_index_def)
    then show ?thesis
      by (auto simp: clean_and_normalize_row_def)
  qed
qed

text \<open>
  Claim C6. Whenever \<^verbatim>\<open>int(zip_code)\<close> parses, a zip code shorter than five characters
  comes back with zeros put in front of it up to length five, and one of five characters or
  more comes back as it is, never cut. When the parse fails the normalizer raises
  \<^verbatim>\<open>ValueError\<close>. So \<^verbatim>\<open>123\<close> becomes \<^verbatim>\<open>00123\<close>, \<^verbatim>\<open>12345\<close> stays, and a
  row whose zip code is \<^verbatim>\<open>abc\<close> is dropped with a warning, whatever its other fields are.
\<close>

theorem validate_zip_pads_or_fails:
  "(case parse_int z of
      Some n \<Rightarrow>
        validate_zip z
          = Inr (if length z < 5 then replicate (5 - length z) CHR ''0'' @ z else z)
    | None \<Rightarrow> raises_ValueError (validate_zip z))
   \<and> validate_zip ''123'' = Inr ''00123''
   \<and> validate_zip ''12345'' = Inr ''12345''
   \<and> raises_ValueError (validate_zip ''abc'')
   \<and> (\<exists>msg. clean_and_normalize_row upper (ts # addr # ''abc'' # rest) io
               = (Inr None, print_error (ValueError msg) io))"
proof -
  have "case parse_int z of
      Some n \<Rightarrow>
        validate_zip z
          = Inr (if length z < 5 then replicate (5 - length z) CHR ''0'' @ z else z)
    | None \<Rightarrow> raises_ValueError (validate_zip z)"
    by (cases "parse_int z") (simp_all only: option.case validate_zip_parsed validate_zip_unparsed)
  moreover have "raises_ValueError (validate_zip ''abc'')"
    by (rule validate_zip_unparsed) (rule parse_int_abc)
  ultimately show ?thesis
    using validate_zip_123 validate_zip_12345 zip_abc_dropped [of upper ts addr rest io] by blast
qed

subsection \<open>The timestamp of the specification's example\<close>

text \<open>
  Claim C3, as the code has it. \<^verbatim>\<open>10/2/02 10:00:00 AM\<close> is read as 10:00 on
  2 October 2002 at the offset -8:00. At the offset -5:00 the same instant is three hours
  later on the clock, 13:00 of the same day, so the normalizer returns
  \<^verbatim>\<open>2002-10-02T13:00:00-05:00\<close>.
\<close>

theorem format_timestamp_example_13:
  "strptime ''10/2/02 10:00:00 AM''
     = Inr \<lparr>year = 2002, month = 10, day = 2, hour = 10, minute = 0, second = 0, tzinfo = None\<rparr>
   \<and> utcoffset eastern_tz - utcoffset pacific_tz = timedelta_hours 3
   \<and> format_timestamp ''10/2/02 10:00:00 AM'' = Inr ''2002-10-02T13:00:00-05:00''"
  by (simp add: strptime_example format_timestamp_example eastern_tz_def pacific_tz_def
        eastern_offset_def pacific_offset_def timedelta_hours_def)

text \<open>
  The value the specification gives for this example, 07:00, is not what the code returns.
\<close>

theorem format_timestamp_example_not_07:
  "format_timestamp ''10/2/02 10:00:00 AM'' \<noteq> Inr ''2002-10-02T07:00:00-05:00''"
  by (simp add: format_timestamp_example)


subsection \<open>The row pipeline\<close>

lemma try_block_returns:
  assumes "8 \<le> length row"
    and "format_timestamp (row ! 0) = Inr v0"
    and "validate_zip (row ! 2) = Inr v2"
    and "convert_duration (row ! 4) = Inr foo"
    and "convert_duration (row ! 5) = Inr bar"
  shows "try_block upper row
           = Inr [v0, clean_address (row ! 1), v2, format_full_name upper (row ! 3), float_str foo,
                  float_str bar, float_str (get_total_duration foo bar), row ! 7]"
proof -
  have "row \<noteq> []"
    using assms(1) by auto
  then show ?thesis
    using assms by (simp add: try_block_def py_index_def)
qed

lemma try_block_short:
  assumes "length row = 7"
    and "format_timestamp (row ! 0) = Inr v0"
    and "validate_zip (row ! 2) = Inr v2"
    and "convert_duration (row ! 4) = Inr foo"
    and "convert_duration (row ! 5) = Inr bar"
  shows "try_block upper row = Inl (IndexError ''list index out of range'')"
proof -
  have "row \<noteq> []"
    using assms(1) by auto
  then show ?thesis
    using assms by (simp add: try_block_def py_index_def)
qed

lemma try_block_empty: "try_block upper [] = Inl (IndexError ''list index out of range'')"
  by (simp add: try_block_def py_index_def)






subsection \<open>The header row\<close>


subsection \<open>Rows of more than eight fields\<close>

lemma take6_nth:
  assumes "8 \<le> length row"
  shows "(take 6 row @ [x, row ! 7] @ extra) ! 0 = row ! 0"
    "(take 6 row @ [x, row ! 7] @ extra) ! 1 = row ! 1"
    "(take 6 row @ [x, row ! 7] @ extra) ! 2 = row ! 2"
    "(take 6 row @ [x, row ! 7] @ extra) ! 3 = row ! 3"
    "(take 6 row @ [x, row ! 7] @ extra) ! 4 = row ! 4"
    "(take 6 row @ [x, row ! 7] @ extra) ! 5 = row ! 5"
    "(take 6 row @ [x, row ! 7] @ extra) ! 7 = row ! 7"
    "8 \<le> length (take 6 row @ [x, row ! 7] @ extra)"
  using assms by (simp_all add: nth_append)

text \<open>
  Claim C10, as the code has it. Take a row of more than eight fields whose timestamp, zip
  code and two durations are accepted by their normalizers, with the results \<open>v0\<close>,
  \<open>v2\<close>, \<open>foo\<close> and \<open>bar\<close>. The pipeline returns the cleaned row of exactly these
  eight fields: \<open>v0\<close>, the quoted address, \<open>v2\<close>, the upper-cased name, \<^verbatim>\<open>str\<close> of
  \<open>foo\<close>, of \<open>bar\<close> and of their float sum, and the input's field 7. It writes no
  warning, and the loop appends the comma-joined cleaned row to the output and nothing else.
  The cleaned row is the same whatever text stands at index 6 and whatever fields, or none,
  stand from index 8 on.
\<close>

theorem long_row_normalized:
  assumes "8 < length row"
    and "format_timestamp (row ! 0) = Inr v0"
    and "validate_zip (row ! 2) = Inr v2"
    and "convert_duration (row ! 4) = Inr foo"
    and "convert_duration (row ! 5) = Inr bar"
  shows "clean_and_normalize_row upper row io
           = (Inr (Some [v0, clean_address (row ! 1), v2, upper (row ! 3), float_str foo,
                         float_str bar, float_str (float_add foo bar), row ! 7]), io)
         \<and> for_rows upper [row] io
           = (None,
              \<lparr>stdout = stdout io
                        @ [str_join '',''
                             [v0, clean_address (row ! 1), v2, upper (row ! 3), float_str foo,
                              float_str bar, float_str (float_add foo bar), row ! 7]],
               stderr = stderr io\<rparr>)
         \<and> (\<forall>x extra.
               clean_and_normalize_row upper (take 6 row @ [x, row ! 7] @ extra) io
                 = (Inr (Some [v0, clean_address (row ! 1), v2, upper (row ! 3), float_str foo,
                               float_str bar, float_str (float_add foo bar), row ! 7]), io))"
proof -
  let ?cleaned = "[v0, clean_address (row ! 1), v2, upper (row ! 3), float_str foo,
                   float_str bar, float_str (float_add foo bar), row ! 7]"
  have len: "8 \<le> length row"
    using assms(1) by simp
  have row: "try_block upper row = Inr ?cleaned"
    using try_block_returns [OF len assms(2-5), of upper]
    by (simp add: format_full_name_def get_total_duration_def)
  have other: "try_block upper (take 6 row @ [x, row ! 7] @ extra) = Inr ?cleaned" for x extra
    using try_block_returns [of "take 6 row @ [x, row ! 7] @ extra" v0 v2 foo bar upper]
    by (simp only: take6_nth [OF len] assms(2-5) format_full_name_def get_total_duration_def)
  have 1: "clean_and_normalize_row upper row io = (Inr (Some ?cleaned), io)"
    by (simp add: clean_and_normalize_row_def row)
  have 2: "for_rows upper [row] io
           = (None, \<lparr>stdout = stdout io @ [str_join '','' ?cleaned], stderr = stderr io\<rparr>)"
    by (simp add: clean_and_normalize_row_def row print_out_def del: str_join.simps)
  have 3: "\<forall>x extra. clean_and_normalize_row upper (take 6 row @ [x, row ! 7] @ extra) io
                            = (Inr (Some ?cleaned), io)"
    unfolding clean_and_normalize_row_def other by simp
  from 1 2 3 show ?thesis by blast
qed

theorem long_row_normalized_witness:
  "8 < length [''10/2/02 10:00:00 AM'', ''123 Main St, Apt 4'', ''123'', ''jane doe'',
               ''1:02:03.5'', ''0:00:01.0'', ''zzz'', ''notes'', ''ninth'', ''tenth'']
   \<and> format_timestamp ''10/2/02 10:00:00 AM'' = Inr ''2002-10-02T13:00:00-05:00''
   \<and> validate_zip ''123'' = Inr ''00123''
   \<and> convert_duration ''1:02:03.5'' = Inr (Finite 7447 (- 1))
   \<and> convert_duration ''0:00:01.0'' = Inr (Finite 1 0)
   \<and> clean_and_normalize_row upper_ascii
         [''10/2/02 10:00:00 AM'', ''123 Main St, Apt 4'', ''123'', ''jane doe'',
          ''1:02:03.5'', ''0:00:01.0'', ''zzz'', ''notes'', ''ninth'', ''tenth''] no_output
       = (Inr (Some [''2002-10-02T13:00:00-05:00'',
                     [CHR 0x22] @ ''123 Main St, Apt 4'' @ [CHR 0x22],
                     ''00123'', ''JANE DOE'', ''3723.5'', ''1.0'', ''3724.5'', ''notes'']),
          no_output)
   \<and> for_rows upper_ascii
         [[''10/2/02 10:00:00 AM'', ''123 Main St, Apt 4'', ''123'', ''jane doe'',
           ''1:02:03.5'', ''0:00:01.0'', ''zzz'', ''notes'', ''ninth'', ''tenth'']] no_output
       = (None,
          \<lparr>stdout = [str_join '',''
                       [''2002-10-02T13:00:00-05:00'',
                        [CHR 0x22] @ ''123 Main St, Apt 4'' @ [CHR 0x22],
                        ''00123'', ''JANE DOE'', ''3723.5'', ''1.0'', ''3724.5'', ''notes'']],
           stderr = []\<rparr>)
   \<and> clean_and_normalize_row upper_ascii
         [''10/2/02 10:00:00 AM'', ''123 Main St, Apt 4'', ''123'', ''jane doe'',
          ''1:02:03.5'', ''0:00:01.0'', ''another total'', ''notes''] no_output
       = (Inr (Some [''2002-10-02T13:00:00-05:00'',
                     [CHR 0x22] @ ''123 Main St, Apt 4'' @ [CHR 0x22],
                     ''00123'', ''JANE DOE'', ''3723.5'', ''1.0'', ''3724.5'', ''notes'']),
          no_output)"
proof -
  let ?row = "[''10/2/02 10:00:00 AM'', ''123 Main St, Apt 4'', ''123'', ''jane doe'',
        ''1:02:03.5'', ''0:00:01.0'', ''zzz'', ''notes'', ''ninth'', ''tenth'']"
  let ?cleaned = "[''2002-10-02T13:00:00-05:00'',
                     [CHR 0x22] @ ''123 Main St, Apt 4'' @ [CHR 0x22],
                     ''00123'', ''JANE DOE'', ''3723.5'', ''1.0'', ''3724.5'', ''notes'']"
  have h1: "8 < length ?row" by simp
  have h2: "format_timestamp (?row ! 0) = Inr ''2002-10-02T13:00:00-05:00''"
    by (simp add: format_timestamp_example)
  have h3: "validate_zip (?row ! 2) = Inr ''00123''"
    by (simp add: validate_zip_123)
  have h4: "convert_duration (?row ! 4) = Inr (Finite 7447 (- 1))"
    by (simp add: convert_duration_foo)
  have h5: "convert_duration (?row ! 5) = Inr (Finite 1 0)"
    by (simp add: convert_duration_bar)
  let ?raw = "[''2002-10-02T13:00:00-05:00'', clean_address (?row ! 1), ''00123'',
               upper_ascii (?row ! 3), float_str (Finite 7447 (- 1)), float_str (Finite 1 0),
               float_str (float_add (Finite 7447 (- 1)) (Finite 1 0)), ?row ! 7]"
  have raw: "?raw = ?cleaned"
    by (simp add: clean_address_def upper_ascii_example float_str_foo float_str_bar
          float_add_foo_bar float_str_total)
  have io: "stdout no_output = []" "stderr no_output = []"
    by (simp_all add: no_output_def)
  note inst = long_row_normalized [OF h1 h2 h3 h4 h5, of upper_ascii no_output]
  from inst have a: "clean_and_normalize_row upper_ascii ?row no_output
                       = (Inr (Some ?raw), no_output)"
    by blast
  from inst have b: "for_rows upper_ascii [?row] no_output
                       = (None, \<lparr>stdout = stdout no_output @ [str_join '','' ?raw],
                                 stderr = stderr no_output\<rparr>)"
    by blast
  from inst have c: "clean_and_normalize_row upper_ascii
                       (take 6 ?row @ [''another total'', ?row ! 7] @ []) no_output
                       = (Inr (Some ?raw), no_output)"
    by blast
  have c1: "clean_and_normalize_row upper_ascii ?row no_output
              = (Inr (Some ?cleaned), no_output)"
    using a unfolding raw .
  have c2: "for_rows upper_ascii [?row] no_output
              = (None, \<lparr>stdout = [str_join '','' ?cleaned], stderr = []\<rparr>)"
    using b unfolding raw io by (simp only: append_Nil)
  have eight: "take 6 ?row @ [''another total'', ?row ! 7] @ []
                 = [''10/2/02 10:00:00 AM'', ''123 Main St, Apt 4'', ''123'', ''jane doe'',
                    ''1:02:03.5'', ''0:00:01.0'', ''another total'', ''notes'']"
    by simp
  have c3: "clean_and_normalize_row upper_ascii
         [''10/2/02 10:00:00 AM'', ''123 Main St, Apt 4'', ''123'', ''jane doe'',
          ''1:02:03.5'', ''0:00:01.0'', ''another total'', ''notes''] no_output
       = (Inr (Some ?cleaned), no_output)"
    using c unfolding raw eight .
  have h: "8 < length ?row"
    "format_timestamp ''10/2/02 10:00:00 AM'' = Inr ''2002-10-02T13:00:00-05:00''"
    "validate_zip ''123'' = Inr ''00123''"
    "convert_duration ''1:02:03.5'' = Inr (Finite 7447 (- 1))"
    "convert_duration ''0:00:01.0'' = Inr (Finite 1 0)"
    by (simp_all add: format_timestamp_example validate_zip_123 convert_duration_foo
          convert_duration_bar)
  from h c1 c2 c3 show ?thesis
    by (intro conjI)
qed

subsection \<open>Rows of fewer than eight fields\<close>

text \<open>
  Claim C4 does not hold of the code. The handler of \<^verbatim>\<open>clean_and_normalize_row\<close>
  takes \<^verbatim>\<open>ValueError\<close> only, and an index out of range raises \<^verbatim>\<open>IndexError\<close>.
  An empty row, which the \<^verbatim>\<open>csv.reader\<close> yields for a blank line, and a row of seven
  valid fields both end the run: no warning is written, the valid row that follows is never
  printed, and the exit status is 1.
\<close>

theorem short_row_ends_run:
  "clean_and_normalize_row upper [] io = (Inl (IndexError ''list index out of range''), io)
   \<and> clean_and_normalize_row upper
         [''10/2/02 10:00:00 AM'', ''123 Main St, Apt 4'', ''123'', ''jane doe'',
          ''1:02:03.5'', ''0:00:01.0'', ''zzz''] io
       = (Inl (IndexError ''list index out of range''), io)
   \<and> read_and_clean_file upper
         [[''Timestamp'', ''Address''], [],
          [''10/2/02 10:00:00 AM'', ''123 Main St, Apt 4'', ''123'', ''jane doe'',
           ''1:02:03.5'', ''0:00:01.0'', ''zzz'', ''notes'']]
       = (Some (IndexError ''list index out of range''),
          \<lparr>stdout = [''Timestamp,Address''], stderr = []\<rparr>)
   \<and> exit_status
         (read_and_clean_file upper
            [[''Timestamp'', ''Address''], [],
             [''10/2/02 10:00:00 AM'', ''123 Main St, Apt 4'', ''123'', ''jane doe'',
              ''1:02:03.5'', ''0:00:01.0'', ''zzz'', ''notes'']]) = 1"
proof -
  have empty: "clean_and_normalize_row upper [] io
                 = (Inl (IndexError ''list index out of range''), io)" for io
    by (simp add: clean_and_normalize_row_def try_block_empty)
  have "try_block upper [''10/2/02 10:00:00 AM'', ''123 Main St, Apt 4'', ''123'', ''jane doe'',
          ''1:02:03.5'', ''0:00:01.0'', ''zzz''] = Inl (IndexError ''list index out of range'')"
    by (rule try_block_short [where ?v0.0 = "''2002-10-02T13:00:00-05:00''" and ?v2.0 = "''00123''"
          and foo = "Finite 7447 (- 1)" and bar = "Finite 1 0"])
       (simp_all add: example_eval)
  then have seven: "clean_and_normalize_row upper
         [''10/2/02 10:00:00 AM'', ''123 Main St, Apt 4'', ''123'', ''jane doe'',
          ''1:02:03.5'', ''0:00:01.0'', ''zzz''] io
       = (Inl (IndexError ''list index out of range''), io)"
    by (simp add: clean_and_normalize_row_def)
  have run: "read_and_clean_file upper
         [[''Timestamp'', ''Address''], [],
          [''10/2/02 10:00:00 AM'', ''123 Main St, Apt 4'', ''123'', ''jane doe'',
           ''1:02:03.5'', ''0:00:01.0'', ''zzz'', ''notes'']]
       = (Some (IndexError ''list index out of range''),
          \<lparr>stdout = [''Timestamp,Address''], stderr = []\<rparr>)"
    by (simp add: empty print_out_def no_output_def)
  show ?thesis
    unfolding run using empty [of io] seven by simp
qed


subsection \<open>Integers too large for a float\<close>

lemma bitlen_upper: "n < 2 ^ bitlen n"
proof (induction n rule: bitlen.induct)
  case (1 n)
  show ?case
  proof (cases "n = 0")
    case True
    then show ?thesis by (simp add: bitlen.simps [of 0])
  next
    case False
    with 1 have "n div 2 < 2 ^ bitlen (n div 2)" by simp
    then have "n < 2 * 2 ^ bitlen (n div 2)" by linarith
    with False show ?thesis by (simp add: bitlen.simps [of n])
  qed
qed

lemma bitlen_lower: "n \<noteq> 0 \<Longrightarrow> 2 ^ (bitlen n - 1) \<le> n"
proof (induction n rule: bitlen.induct)
  case (1 n)
  show ?case
  proof (cases "n div 2 = 0")
    case True
    with 1(2) show ?thesis
      by (simp add: bitlen.simps [of n] bitlen.simps [of 0])
  next
    case False
    with 1 have ih: "2 ^ (bitlen (n div 2) - 1) \<le> n div 2" by simp
    from False have pos: "0 < bitlen (n div 2)"
      by (simp add: bitlen.simps [of "n div 2"])
    then have "(2::nat) ^ bitlen (n div 2) = 2 * 2 ^ (bitlen (n div 2) - 1)"
      by (cases "bitlen (n div 2)") simp_all
    with ih have "2 ^ bitlen (n div 2) \<le> n" by linarith
    with 1(2) show ?thesis by (simp add: bitlen.simps [of n])
  qed
qed

lemma bitlen_gt: "2 ^ k \<le> n \<Longrightarrow> k < bitlen n"
proof -
  assume "2 ^ k \<le> n"
  with bitlen_upper [of n] have "(2::nat) ^ k < 2 ^ bitlen n" by linarith
  then show ?thesis by simp
qed

lemma round_half_even_ge: "n div d \<le> round_half_even n d"
  by (simp add: round_half_even_def)

lemma round_double_overflow:
  assumes big: "2 ^ 1024 \<le> n"
  shows "round_double neg n 1 = Infinity neg"
proof -
  define b where "b = bitlen n"
  have b: "1024 < b"
    unfolding b_def using big by (rule bitlen_gt)
  have n0: "n \<noteq> 0"
    using big by auto
  have low: "2 ^ (b - 1) \<le> n"
    unfolding b_def using n0 by (rule bitlen_lower)
  have one: "bitlen (Suc 0) = Suc 0"
    by (simp add: bitlen.simps [of "Suc 0"] bitlen.simps [of 0])
  have nat1: "nat (int b - 1) = b - 1"
    by simp
  have fl: "floor_log2 n 1 = int b - 1"
    using b low
    by (simp add: floor_log2_def log2_adjust_def one b_def [symmetric] nat1 del: of_nat_diff)
  have e: "max (floor_log2 n 1 - 52) (- 1074) = int b - 53"
    unfolding fl using b by simp
  have nat2: "nat (int b - 53) = b - 53"
    by simp
  have pos: "0 \<le> int b - 53"
    using b by simp
  define mant where "mant = round_half_even n (2 ^ (b - 53))"
  have "b - 1 = 52 + (b - 53)"
    using b by simp
  then have split: "(2::nat) ^ (b - 1) = 2 ^ 52 * 2 ^ (b - 53)"
    by (simp only: power_add)
  have "(2::nat) ^ 52 * 2 ^ (b - 53) \<le> n"
    using low unfolding split .
  moreover have q: "(0::nat) < 2 ^ (b - 53)"
    by simp
  ultimately have "2 ^ 52 \<le> n div 2 ^ (b - 53)"
    by (simp only: less_eq_div_iff_mult_less_eq [OF q])
  also have "\<dots> \<le> mant"
    unfolding mant_def by (rule round_half_even_ge)
  finally have "52 < bitlen mant"
    by (rule bitlen_gt)
  then have over: "1024 < int (bitlen mant) + (int b - 53)"
    using b by linarith
  have "round_at neg n 1 (int b - 53)
          = round_mant neg (int b - 53) (round_half_even n (1 * 2 ^ nat (int b - 53)))"
    unfolding round_at_def using pos by simp
  also have "\<dots> = round_mant neg (int b - 53) mant"
    unfolding mant_def nat2 by simp
  also have "\<dots> = Infinity neg"
    unfolding round_mant_def using over by simp
  finally have "round_at neg n 1 (int b - 53) = Infinity neg" .
  then show ?thesis
    unfolding round_double_def e using n0 by simp
qed

lemma float_of_int_overflow:
  assumes "2 ^ 1024 \<le> i"
  shows "float_of_int i = Inl (OverflowError ''int too large to convert to float'')"
proof -
  have "(2::nat) ^ 1024 \<le> nat \<bar>i\<bar>"
    using assms by (simp add: le_nat_iff)
  then have "round_double (i < 0) (nat \<bar>i\<bar>) 1 = Infinity (i < 0)"
    by (rule round_double_overflow)
  then show ?thesis
    by (simp add: float_of_int_def)
qed

subsection \<open>Splitting and parsing a duration\<close>

lemma split_acc_plain: "sep \<notin> set xs \<Longrightarrow> split_acc sep acc xs = [rev acc @ xs]"
  by (induction xs arbitrary: acc) auto

lemma split_acc_sep:
  "sep \<notin> set xs \<Longrightarrow> split_acc sep acc (xs @ sep # rest) = (rev acc @ xs) # split_acc sep [] rest"
  by (induction xs arbitrary: acc) auto

lemma is_digit_facts:
  assumes "is_digit c"
  shows "code c < 127" "\<not> is_ascii_space c" "c \<noteq> CHR ''-''" "c \<noteq> CHR ''+''" "c \<noteq> CHR ''_''"
    "c \<noteq> CHR '':''"
  using assms by (auto simp: is_digit_def is_ascii_space_def code_def)

lemma no_double_underscore_digits:
  "\<forall>c \<in> set ds. c \<noteq> CHR ''_'' \<Longrightarrow> no_double_underscore ds"
  by (induction ds rule: no_double_underscore.induct) simp_all

lemma parse_int_digits:
  assumes ne: "ds \<noteq> []" and dig: "\<forall>c \<in> set ds. is_digit c"
  shows "parse_int ds = Some (int (dec_value ds))"
proof -
  have asc: "to_ascii ds = ds"
    using dig by (simp add: to_ascii_def is_digit_facts map_idI)
  have hd: "is_digit (hd ds)" and last: "is_digit (last ds)"
    using ne dig by simp_all
  have sp: "dropWhile is_ascii_space ds = ds"
    using ne hd by (cases ds) (simp_all add: is_digit_facts)
  have tk: "takeWhile (\<lambda>c. is_digit c \<or> c = CHR ''_'') ds = ds"
    and dr: "dropWhile (\<lambda>c. is_digit c \<or> c = CHR ''_'') ds = []"
    using dig by simp_all
  have nd: "no_double_underscore ds"
    using dig by (intro no_double_underscore_digits) (auto simp: is_digit_facts)
  have fl: "filter is_digit ds = ds"
    using dig by simp
  have "int_body False ds = Some (int (dec_value ds))"
    using ne hd last nd by (simp add: int_body_def tk dr int_digits_def fl is_digit_facts)
  then show ?thesis
    using ne hd by (simp add: parse_int_def asc sp int_signed_def is_digit_facts)
qed

lemma dec_value_zeros: "dec_value (ds @ replicate n CHR ''0'') = dec_value ds * 10 ^ n"
proof (induction n arbitrary: ds)
  case 0
  show ?case by simp
next
  case (Suc n)
  have "dec_value ((ds @ ''0'') @ replicate n CHR ''0'') = dec_value (ds @ ''0'') * 10 ^ n"
    by (rule Suc.IH)
  moreover have "dec_value (ds @ ''0'') = dec_value ds * 10"
    by (simp add: dec_value_def digit_val_def code_def)
  ultimately show ?case by simp
qed

lemma py_int_zero: "py_int ''0'' = Inr 0"
  by (simp add: int_eval char_eval split del: if_split cong: eval_cong)

lemma py_float_zero: "py_float ''0'' = Inr (Finite 0 0)"
  by (simp add: parse_float_eval float_eval char_eval split del: if_split cong: eval_cong)

lemma convert_duration_overflow:
  assumes ne: "ds \<noteq> []" and dig: "\<forall>c \<in> set ds. is_digit c"
    and big: "2 ^ 1024 \<le> dec_value ds * 3600"
  shows "convert_duration (ds @ '':0:0'')
           = Inl (OverflowError ''int too large to convert to float'')"
proof -
  have nosep: "CHR '':'' \<notin> set ds"
    using dig is_digit_facts(6) by blast
  have "str_split (ds @ '':0:0'') CHR '':'' = [ds, ''0'', ''0'']"
    using split_acc_sep [OF nosep, of "[]" "''0:0''"] by (simp add: str_split_def)
  moreover have "py_int ds = Inr (int (dec_value ds))"
    using parse_int_digits [OF ne dig] by (simp add: py_int_def)
  moreover have "float_of_int (int (dec_value ds) * 3600 + 0 * 60)
                   = Inl (OverflowError ''int too large to convert to float'')"
  proof (rule float_of_int_overflow)
    have "(2::int) ^ 1024 = int (2 ^ 1024)" by simp
    also have "\<dots> \<le> int (dec_value ds * 3600)"
      using big by (simp only: of_nat_le_iff)
    finally show "2 ^ 1024 \<le> int (dec_value ds) * 3600 + 0 * 60" by simp
  qed
  ultimately show ?thesis
    by (simp add: convert_duration_def py_int_zero py_float_zero)
qed

lemma huge_hours_digits:
  "''1'' @ replicate 400 CHR ''0'' \<noteq> []"
  "\<forall>c \<in> set (''1'' @ replicate 400 CHR ''0''). is_digit c"
  "dec_value (''1'' @ replicate 400 CHR ''0'') = 10 ^ 400"
proof -
  show "''1'' @ replicate 400 CHR ''0'' \<noteq> []" by simp
  show "\<forall>c \<in> set (''1'' @ replicate 400 CHR ''0''). is_digit c"
    by (simp add: is_digit_def code_def)
  show "dec_value (''1'' @ replicate 400 CHR ''0'') = 10 ^ 400"
    unfolding dec_value_zeros by (simp add: dec_value_def digit_val_def code_def)
qed

lemma huge_duration_overflow:
  "convert_duration huge_duration
     = Inl (OverflowError ''int too large to convert to float'')"
proof -
  have "convert_duration ((''1'' @ replicate 400 CHR ''0'') @ '':0:0'')
     = Inl (OverflowError ''int too large to convert to float'')"
  proof (rule convert_duration_overflow)
    show "''1'' @ replicate 400 CHR ''0'' \<noteq> []"
      by (rule huge_hours_digits)
    show "\<forall>c \<in> set (''1'' @ replicate 400 CHR ''0''). is_digit c"
      by (rule huge_hours_digits)
    show "2 ^ 1024 \<le> dec_value (''1'' @ replicate 400 CHR ''0'') * 3600"
      unfolding huge_hours_digits by simp
  qed
  then show ?thesis by (simp add: huge_duration_def)
qed

lemma huge_duration_shape:
  "str_split huge_duration CHR '':'' = [''1'' @ replicate 400 CHR ''0'', ''0'', ''0'']
   \<and> parse_int (''1'' @ replicate 400 CHR ''0'') = Some (10 ^ 400)
   \<and> parse_int ''0'' = Some 0
   \<and> parse_float ''0'' = Some (Finite 0 0)"
proof -
  have nosep: "CHR '':'' \<notin> set (''1'' @ replicate 400 CHR ''0'')"
    using huge_hours_digits(2) is_digit_facts(6) by blast
  have "str_split ((''1'' @ replicate 400 CHR ''0'') @ '':0:0'') CHR '':''
     = [''1'' @ replicate 400 CHR ''0'', ''0'', ''0'']"
    using split_acc_sep [OF nosep, of "[]" "''0:0''"] by (simp add: str_split_def)
  then have 1: "str_split huge_duration CHR '':''
                  = [''1'' @ replicate 400 CHR ''0'', ''0'', ''0'']"
    by (simp add: huge_duration_def)
  have "parse_int (''1'' @ replicate 400 CHR ''0'')
          = Some (int (dec_value (''1'' @ replicate 400 CHR ''0'')))"
    using huge_hours_digits(1,2) by (rule parse_int_digits)
  then have 2: "parse_int (''1'' @ replicate 400 CHR ''0'') = Some (10 ^ 400)"
    unfolding huge_hours_digits by simp
  have 3: "parse_int ''0'' = Some 0"
    using py_int_zero by (simp add: py_int_cases)
  have 4: "parse_float ''0'' = Some (Finite 0 0)"
    using py_float_zero by (simp add: py_float_cases)
  from 1 2 3 4 show ?thesis by (intro conjI)
qed


subsection \<open>Durations\<close>

lemma unpack3_Inr: "unpack3 parts = Inr (h, m, s) \<longleftrightarrow> parts = [h, m, s]"
  by (cases parts rule: unpack3.cases) auto

lemma unpack3_other: "length parts \<noteq> 3 \<Longrightarrow> raises_ValueError (unpack3 parts)"
  by (cases parts rule: unpack3.cases) auto

lemma unpack3_returns_or_ValueError: "returns (unpack3 parts) \<or> raises_ValueError (unpack3 parts)"
  by (cases parts rule: unpack3.cases) auto

lemma float_of_int_outcomes:
  "returns (float_of_int i)
   \<or> float_of_int i = Inl (OverflowError ''int too large to convert to float'')"
  by (cases "round_double (i < 0) (nat \<bar>i\<bar>) 1") (simp_all add: float_of_int_def)

lemma convert_duration_returns:
  assumes "str_split d CHR '':'' = [h, m, s]"
    and "parse_int h = Some hours" and "parse_int m = Some minutes"
    and "parse_float s = Some seconds"
    and "float_of_int (hours * 3600 + minutes * 60) = Inr whole"
  shows "convert_duration d = Inr (float_add whole seconds)"
  using assms by (simp add: convert_duration_def py_int_def py_float_def)

lemma convert_duration_bad_shape:
  assumes "length (str_split d CHR '':'') \<noteq> 3"
  shows "raises_ValueError (convert_duration d)"
proof -
  from unpack3_other [OF assms] obtain msg
    where "unpack3 (str_split d CHR '':'') = Inl (ValueError msg)"
    by (auto simp: raises_ValueError_iff)
  then show ?thesis by (simp add: convert_duration_def)
qed

lemma convert_duration_bad_number:
  assumes "str_split d CHR '':'' = [h, m, s]"
    and "parse_int h = None \<or> parse_int m = None \<or> parse_float s = None"
  shows "raises_ValueError (convert_duration d)"
proof (cases "parse_int h")
  case None
  then show ?thesis
    using assms(1) by (simp add: convert_duration_def py_int_def)
next
  case hours: (Some hours)
  show ?thesis
  proof (cases "parse_int m")
    case None
    then show ?thesis
      using assms(1) hours by (simp add: convert_duration_def py_int_def)
  next
    case minutes: (Some minutes)
    with hours assms(2) have "parse_float s = None" by simp
    then show ?thesis
      using assms(1) hours minutes by (simp add: convert_duration_def py_int_def py_float_def)
  qed
qed

lemma convert_duration_outcomes:
  "returns (convert_duration d) \<or> raises_ValueError (convert_duration d)
   \<or> convert_duration d = Inl (OverflowError ''int too large to convert to float'')"
proof (cases "length (str_split d CHR '':'') = 3")
  case False
  then show ?thesis by (simp add: convert_duration_bad_shape)
next
  case True
  then obtain h m s where parts: "str_split d CHR '':'' = [h, m, s]"
    by (auto simp: length_Suc_conv numeral_3_eq_3)
  show ?thesis
  proof (cases "parse_int h = None \<or> parse_int m = None \<or> parse_float s = None")
    case True
    with parts show ?thesis by (simp add: convert_duration_bad_number)
  next
    case False
    then obtain hours minutes seconds where
      nums: "parse_int h = Some hours" "parse_int m = Some minutes"
        "parse_float s = Some seconds"
      by auto
    from float_of_int_outcomes [of "hours * 3600 + minutes * 60"] show ?thesis
    proof
      assume "returns (float_of_int (hours * 3600 + minutes * 60))"
      then obtain whole where "float_of_int (hours * 3600 + minutes * 60) = Inr whole"
        by (auto simp: returns_iff)
      with parts nums have "convert_duration d = Inr (float_add whole seconds)"
        by (rule convert_duration_returns)
      then show ?thesis by simp
    next
      assume "float_of_int (hours * 3600 + minutes * 60)
                = Inl (OverflowError ''int too large to convert to float'')"
      with parts nums show ?thesis
        by (simp add: convert_duration_def py_int_def py_float_def)
    qed
  qed
qed

lemma try_block_Inr:
  "try_block upper row = Inr cleaned \<longleftrightarrow>
     7 < length row
     \<and> (\<exists>v0 v2 foo bar.
           format_timestamp (row ! 0) = Inr v0 \<and> validate_zip (row ! 2) = Inr v2
           \<and> convert_duration (row ! 4) = Inr foo \<and> convert_duration (row ! 5) = Inr bar
           \<and> cleaned = [v0, clean_address (row ! 1), v2, format_full_name upper (row ! 3),
                         float_str foo, float_str bar, float_str (float_add foo bar),
                         row ! 7])"
  by (auto simp: try_block_def py_index_def bind_r_case get_total_duration_def
        split: sum.splits)

lemma try_block_total_recomputed:
  assumes "try_block upper row = Inr cleaned"
  shows "\<exists>foo bar. convert_duration (row ! 4) = Inr foo \<and> convert_duration (row ! 5) = Inr bar
           \<and> cleaned ! 4 = float_str foo \<and> cleaned ! 5 = float_str bar
           \<and> cleaned ! 6 = float_str (float_add foo bar)
           \<and> (\<forall>x. try_block upper (row[6 := x]) = Inr cleaned)"
proof -
  from assms obtain v0 v2 foo bar where
    len: "7 < length row"
    and parts: "format_timestamp (row ! 0) = Inr v0" "validate_zip (row ! 2) = Inr v2"
      "convert_duration (row ! 4) = Inr foo" "convert_duration (row ! 5) = Inr bar"
    and cleaned: "cleaned = [v0, clean_address (row ! 1), v2, format_full_name upper (row ! 3),
                         float_str foo, float_str bar, float_str (float_add foo bar),
                         row ! 7]"
    unfolding try_block_Inr by blast
  have "try_block upper (row[6 := x]) = Inr cleaned" for x
    unfolding try_block_Inr using len parts cleaned by simp
  with parts cleaned show ?thesis by simp
qed


lemma example_numbers:
  "str_split ''1:02:03.5'' CHR '':'' = [''1'', ''02'', ''03.5'']"
  "parse_int ''1'' = Some 1" "parse_int ''02'' = Some 2"
  "parse_float ''03.5'' = Some (Finite 7 (- 1))"
  "float_of_int (1 * 3600 + 2 * 60) = Inr (Finite 465 3)"
  "float_add (Finite 465 3) (Finite 7 (- 1)) = Finite 7447 (- 1)"
  "str_split ''1:02'' CHR '':'' = [''1'', ''02'']"
  "str_split ''1:x:3'' CHR '':'' = [''1'', ''x'', ''3'']"
  "parse_int ''x'' = None"
  by (simp_all add: str_split_def int_eval parse_float_eval float_eval char_eval
        split del: if_split cong: eval_cong)

text \<open>
  Claim C5, as the code has it. A duration that splits at the colons into exactly three
  parts, of which the first two parse as integers and the third as a float, gives the float
  of the integer \<open>hours * 3600 + minutes * 60\<close> plus the seconds, provided that integer
  can be converted to a float at all. A text of any other shape raises
  \<^verbatim>\<open>ValueError\<close>. In a cleaned row the fields 4 and 5 are \<^verbatim>\<open>str\<close> of the two
  durations and field 6 is \<^verbatim>\<open>str\<close> of their float sum; the input's own field 6 has no
  influence on the cleaned row. The durations \<^verbatim>\<open>1:02:03.5\<close> and \<^verbatim>\<open>0:00:01.0\<close>
  give the total \<^verbatim>\<open>3724.5\<close>.
\<close>

theorem duration_seconds_and_total:
  "(str_split d CHR '':'' = [h, m, s] \<and> parse_int h = Some hours
      \<and> parse_int m = Some minutes \<and> parse_float s = Some seconds
      \<and> float_of_int (hours * 3600 + minutes * 60) = Inr whole
    \<longrightarrow> convert_duration d = Inr (float_add whole seconds))
   \<and> (length (str_split d2 CHR '':'') \<noteq> 3 \<longrightarrow> raises_ValueError (convert_duration d2))
   \<and> (str_split d3 CHR '':'' = [h3, m3, s3]
        \<and> (parse_int h3 = None \<or> parse_int m3 = None \<or> parse_float s3 = None)
      \<longrightarrow> raises_ValueError (convert_duration d3))
   \<and> (try_block upper row = Inr cleaned
      \<longrightarrow> (\<exists>foo bar. convert_duration (row ! 4) = Inr foo
               \<and> convert_duration (row ! 5) = Inr bar
               \<and> cleaned ! 4 = float_str foo \<and> cleaned ! 5 = float_str bar
               \<and> cleaned ! 6 = float_str (float_add foo bar)
               \<and> (\<forall>x. try_block upper (row[6 := x]) = Inr cleaned)))
   \<and> convert_duration ''1:02:03.5'' = Inr (Finite 7447 (- 1))
   \<and> convert_duration ''0:00:01.0'' = Inr (Finite 1 0)
   \<and> float_str (Finite 7447 (- 1)) = ''3723.5''
   \<and> float_str (Finite 1 0) = ''1.0''
   \<and> float_str (float_add (Finite 7447 (- 1)) (Finite 1 0)) = ''3724.5''
   \<and> try_block upper [''10/2/02 10:00:00 AM'', ''123 Main St, Apt 4'', ''123'', ''jane doe'',
                       ''1:02:03.5'', ''0:00:01.0'', ''zzz'', ''notes'']
       = Inr [''2002-10-02T13:00:00-05:00'', [CHR 0x22] @ ''123 Main St, Apt 4'' @ [CHR 0x22],
              ''00123'', upper ''jane doe'', ''3723.5'', ''1.0'', ''3724.5'', ''notes'']"
proof -
  have sum: "float_str (float_add (Finite 7447 (- 1)) (Finite 1 0)) = ''3724.5''"
    by (simp add: float_add_foo_bar float_str_total)
  show ?thesis
    using convert_duration_returns [of d h m s hours minutes seconds whole]
      convert_duration_bad_shape [of d2]
      convert_duration_bad_number [of d3 h3 m3 s3]
      try_block_total_recomputed [of upper row cleaned]
      convert_duration_foo convert_duration_bar float_str_foo float_str_bar sum
      try_block_example [of upper]
    by blast
qed

theorem duration_seconds_and_total_witness:
  "str_split ''1:02:03.5'' CHR '':'' = [''1'', ''02'', ''03.5'']
   \<and> parse_int ''1'' = Some 1 \<and> parse_int ''02'' = Some 2
   \<and> parse_float ''03.5'' = Some (Finite 7 (- 1))
   \<and> float_of_int (1 * 3600 + 2 * 60) = Inr (Finite 465 3)
   \<and> convert_duration ''1:02:03.5'' = Inr (float_add (Finite 465 3) (Finite 7 (- 1)))
   \<and> length (str_split ''1:02'' CHR '':'') \<noteq> 3
   \<and> raises_ValueError (convert_duration ''1:02'')
   \<and> str_split ''1:x:3'' CHR '':'' = [''1'', ''x'', ''3'']
   \<and> parse_int ''x'' = None
   \<and> raises_ValueError (convert_duration ''1:x:3'')
   \<and> try_block upper_ascii
         [''10/2/02 10:00:00 AM'', ''123 Main St, Apt 4'', ''123'', ''jane doe'',
          ''1:02:03.5'', ''0:00:01.0'', ''zzz'', ''notes'']
       = Inr [''2002-10-02T13:00:00-05:00'', [CHR 0x22] @ ''123 Main St, Apt 4'' @ [CHR 0x22],
              ''00123'', ''JANE DOE'', ''3723.5'', ''1.0'', ''3724.5'', ''notes'']
   \<and> (\<forall>x. try_block upper_ascii
              ([''10/2/02 10:00:00 AM'', ''123 Main St, Apt 4'', ''123'', ''jane doe'',
                ''1:02:03.5'', ''0:00:01.0'', ''zzz'', ''notes''][6 := x])
            = Inr [''2002-10-02T13:00:00-05:00'',
                   [CHR 0x22] @ ''123 Main St, Apt 4'' @ [CHR 0x22],
                   ''00123'', ''JANE DOE'', ''3723.5'', ''1.0'', ''3724.5'', ''notes''])"
proof -
  let ?row = "[''10/2/02 10:00:00 AM'', ''123 Main St, Apt 4'', ''123'', ''jane doe'',
          ''1:02:03.5'', ''0:00:01.0'', ''zzz'', ''notes'']"
  let ?cleaned = "[''2002-10-02T13:00:00-05:00'',
                   [CHR 0x22] @ ''123 Main St, Apt 4'' @ [CHR 0x22],
                   ''00123'', ''JANE DOE'', ''3723.5'', ''1.0'', ''3724.5'', ''notes'']"
  note inst = duration_seconds_and_total
    [of "''1:02:03.5''" "''1''" "''02''" "''03.5''" 1 2 "Finite 7 (- 1)" "Finite 465 3"
        "''1:02''" "''1:x:3''" "''1''" "''x''" "''3''" upper_ascii ?row ?cleaned]
  have row: "try_block upper_ascii ?row = Inr ?cleaned"
    using try_block_example [of upper_ascii] by (simp add: upper_ascii_example)
  have 1: "convert_duration ''1:02:03.5'' = Inr (float_add (Finite 465 3) (Finite 7 (- 1)))"
    using inst example_numbers by blast
  have 2: "raises_ValueError (convert_duration ''1:02'')"
    using inst example_numbers(7) by simp
  have 3: "raises_ValueError (convert_duration ''1:x:3'')"
    using inst example_numbers(8,9) by blast
  have 4: "\<forall>x. try_block upper_ascii (?row[6 := x]) = Inr ?cleaned"
    using inst row by blast
  have 5: "length (str_split ''1:02'' CHR '':'') \<noteq> 3"
    by (simp add: example_numbers)
  from example_numbers(1-5) 1 5 2 example_numbers(8,9) 3 row 4 show ?thesis
    by (intro conjI)
qed

text \<open>
  As the specification states it, claim C5 fails at a duration of \<open>10^400\<close> hours:
  the text splits into three parts, its hours and minutes parse as integers and its seconds
  as a float, but the integer of whole seconds is too large for a float and the normalizer
  raises \<^verbatim>\<open>OverflowError\<close> instead of returning a number.
\<close>

theorem huge_duration_not_converted:
  "str_split huge_duration CHR '':'' = [''1'' @ replicate 400 CHR ''0'', ''0'', ''0'']
   \<and> parse_int (''1'' @ replicate 400 CHR ''0'') = Some (10 ^ 400)
   \<and> parse_int ''0'' = Some 0
   \<and> parse_float ''0'' = Some (Finite 0 0)
   \<and> convert_duration huge_duration
       = Inl (OverflowError ''int too large to convert to float'')
   \<and> \<not> returns (convert_duration huge_duration)
   \<and> \<not> raises_ValueError (convert_duration huge_duration)"
  using huge_duration_shape by (simp add: huge_duration_overflow)


subsection \<open>Rows of eight fields\<close>

lemma validate_zip_returns_or_ValueError:
  "returns (validate_zip z) \<or> raises_ValueError (validate_zip z)"
  by (cases "parse_int z") (simp_all add: validate_zip_parsed validate_zip_unparsed)

lemma try_block_duration_raises:
  assumes "5 < length row"
    and "format_timestamp (row ! 0) = Inr v0"
    and "validate_zip (row ! 2) = Inr v2"
    and "convert_duration (row ! 4) = Inl e"
  shows "try_block upper row = Inl e"
proof -
  have "row \<noteq> []"
    using assms(1) by auto
  then show ?thesis
    using assms by (simp add: try_block_def py_index_def)
qed

lemma overflow_row:
  "try_block upper
     [''10/2/02 10:00:00 AM'', ''123 Main St, Apt 4'', ''123'', ''jane doe'',
      huge_duration, bar, tot, nts]
   = Inl (OverflowError ''int too large to convert to float'')"
  by (rule try_block_duration_raises
        [where ?v0.0 = "''2002-10-02T13:00:00-05:00''" and ?v2.0 = "''00123''"])
     (simp_all add: format_timestamp_example validate_zip_123 huge_duration_overflow)


text \<open>
  Claim C1 does not hold of the code. An eight-field row whose foo duration is
  \<open>10^400\<close> hours makes \<^verbatim>\<open>convert_duration\<close> raise \<^verbatim>\<open>OverflowError\<close>, which the
  handler for \<^verbatim>\<open>ValueError\<close> does not take: no output row and no warning is written,
  also when the bar duration of the same row is the malformed \<^verbatim>\<open>abc\<close>, and the run ends
  there with exit status 1, before the valid row that follows.
\<close>

theorem overflow_row_ends_run:
  "clean_and_normalize_row upper
     [''10/2/02 10:00:00 AM'', ''123 Main St, Apt 4'', ''123'', ''jane doe'',
      huge_duration, ''0:00:01.0'', ''zzz'', ''notes''] io
     = (Inl (OverflowError ''int too large to convert to float''), io)
   \<and> clean_and_normalize_row upper
       [''10/2/02 10:00:00 AM'', ''123 Main St, Apt 4'', ''123'', ''jane doe'',
        huge_duration, ''abc'', ''zzz'', ''notes''] io
     = (Inl (OverflowError ''int too large to convert to float''), io)
   \<and> read_and_clean_file upper
       [[''Timestamp'', ''Address''],
        [''10/2/02 10:00:00 AM'', ''123 Main St, Apt 4'', ''123'', ''jane doe'',
         huge_duration, ''0:00:01.0'', ''zzz'', ''notes''],
        [''10/2/02 10:00:00 AM'', ''123 Main St, Apt 4'', ''123'', ''jane doe'',
         ''1:02:03.5'', ''0:00:01.0'', ''zzz'', ''notes'']]
     = (Some (OverflowError ''int too large to convert to float''),
        \<lparr>stdout = [''Timestamp,Address''], stderr = []\<rparr>)
   \<and> exit_status
       (read_and_clean_file upper
          [[''Timestamp'', ''Address''],
           [''10/2/02 10:00:00 AM'', ''123 Main St, Apt 4'', ''123'', ''jane doe'',
            huge_duration, ''0:00:01.0'', ''zzz'', ''notes''],
           [''10/2/02 10:00:00 AM'', ''123 Main St, Apt 4'', ''123'', ''jane doe'',
            ''1:02:03.5'', ''0:00:01.0'', ''zzz'', ''notes'']]) = 1"
proof -
  have row: "clean_and_normalize_row upper
     [''10/2/02 10:00:00 AM'', ''123 Main St, Apt 4'', ''123'', ''jane doe'',
      huge_duration, bar, tot, nts] io
     = (Inl (OverflowError ''int too large to convert to float''), io)" for bar tot nts io
    by (simp add: clean_and_normalize_row_def overflow_row)
  have run: "read_and_clean_file upper
       [[''Timestamp'', ''Address''],
        [''10/2/02 10:00:00 AM'', ''123 Main St, Apt 4'', ''123'', ''jane doe'',
         huge_duration, ''0:00:01.0'', ''zzz'', ''notes''],
        [''10/2/02 10:00:00 AM'', ''123 Main St, Apt 4'', ''123'', ''jane doe'',
         ''1:02:03.5'', ''0:00:01.0'', ''zzz'', ''notes'']]
     = (Some (OverflowError ''int too large to convert to float''),
        \<lparr>stdout = [''Timestamp,Address''], stderr = []\<rparr>)"
    by (simp add: row print_out_def no_output_def)
  show ?thesis
    unfolding run using row by simp
qed

text \<open>
  As the specification states it, claim C10 fails at a row of nine fields whose foo duration
  is \<open>10^400\<close> hours: the timestamp and the zip code are accepted, both durations have
  the shape the specification asks for, and yet no normalized row is emitted.
\<close>

theorem long_row_overflow_not_emitted:
  "8 < length [''10/2/02 10:00:00 AM'', ''123 Main St, Apt 4'', ''123'', ''jane doe'',
               huge_duration, ''0:00:01.0'', ''zzz'', ''notes'', ''ninth'']
   \<and> format_timestamp ''10/2/02 10:00:00 AM'' = Inr ''2002-10-02T13:00:00-05:00''
   \<and> validate_zip ''123'' = Inr ''00123''
   \<and> str_split huge_duration CHR '':'' = [''1'' @ replicate 400 CHR ''0'', ''0'', ''0'']
   \<and> parse_int (''1'' @ replicate 400 CHR ''0'') = Some (10 ^ 400)
   \<and> parse_int ''0'' = Some 0
   \<and> parse_float ''0'' = Some (Finite 0 0)
   \<and> convert_duration ''0:00:01.0'' = Inr (Finite 1 0)
   \<and> clean_and_normalize_row upper_ascii
         [''10/2/02 10:00:00 AM'', ''123 Main St, Apt 4'', ''123'', ''jane doe'',
          huge_duration, ''0:00:01.0'', ''zzz'', ''notes'', ''ninth''] no_output
       = (Inl (OverflowError ''int too large to convert to float''), no_output)
   \<and> for_rows upper_ascii
         [[''10/2/02 10:00:00 AM'', ''123 Main St, Apt 4'', ''123'', ''jane doe'',
           huge_duration, ''0:00:01.0'', ''zzz'', ''notes'', ''ninth'']] no_output
       = (Some (OverflowError ''int too large to convert to float''), no_output)"
proof -
  have "try_block upper_ascii
         [''10/2/02 10:00:00 AM'', ''123 Main St, Apt 4'', ''123'', ''jane doe'',
          huge_duration, ''0:00:01.0'', ''zzz'', ''notes'', ''ninth'']
        = Inl (OverflowError ''int too large to convert to float'')"
    by (rule try_block_duration_raises
          [where ?v0.0 = "''2002-10-02T13:00:00-05:00''" and ?v2.0 = "''00123''"])
       (simp_all add: format_timestamp_example validate_zip_123 huge_duration_overflow)
  then have row: "clean_and_normalize_row upper_ascii
         [''10/2/02 10:00:00 AM'', ''123 Main St, Apt 4'', ''123'', ''jane doe'',
          huge_duration, ''0:00:01.0'', ''zzz'', ''notes'', ''ninth''] no_output
       = (Inl (OverflowError ''int too large to convert to float''), no_output)"
    by (simp add: clean_and_normalize_row_def)
  then have run: "for_rows upper_ascii
         [[''10/2/02 10:00:00 AM'', ''123 Main St, Apt 4'', ''123'', ''jane doe'',
           huge_duration, ''0:00:01.0'', ''zzz'', ''notes'', ''ninth'']] no_output
       = (Some (OverflowError ''int too large to convert to float''), no_output)"
    by simp
  from huge_duration_shape row run show ?thesis
    by (simp add: format_timestamp_example validate_zip_123 convert_duration_bar)
qed


end
